theory Spec2Isabelle
  imports Complex_Main
begin

section \<open>Configuration\<close>

text \<open>
  The constants of \<^verbatim>\<open>index.ts\<close> that the delivery and persistence code reads.
  \<^verbatim>\<open>HMAC_SECRET\<close> is \<^verbatim>\<open>process.env.HMAC_SECRET || "change-me-in-production"\<close>: the
  environment variable may be unset (\<open>None\<close>) or empty, and both are falsy.
\<close>

definition MAX_RETRIES :: nat where
  "MAX_RETRIES = 3"

definition RETRY_BASE_MS :: nat where
  "RETRY_BASE_MS = 1000"

definition HMAC_SECRET :: "string option \<Rightarrow> string" where
  "HMAC_SECRET env =
     (case env of
        None \<Rightarrow> ''change-me-in-production''
      | Some s \<Rightarrow> if s = [] then ''change-me-in-production'' else s)"

section \<open>Values\<close>

text \<open>
  The upstream body is whatever \<^verbatim>\<open>res.json()\<close> returns, and the casts of the source
  (\<^verbatim>\<open>as Record<string, unknown>[]\<close>, \<^verbatim>\<open>as number\<close>, \<^verbatim>\<open>as string\<close>) do nothing at run time,
  so polled records, their fields and the snapshots built from them are untyped values:
  the JSON values, \<^verbatim>\<open>undefined\<close> (the value of a missing property), and \<open>Builtin k\<close>, the
  member \<open>k\<close> that every plain object inherits from \<^verbatim>\<open>Object.prototype\<close> (a function, or
  for \<^verbatim>\<open>__proto__\<close> the prototype itself). \<open>Num x\<close> is a finite number, with \<open>x\<close> the value of
  the double (so \<^verbatim>\<open>-0\<close> is \<open>0\<close>); \<open>Infinite negative\<close> is what a JSON number beyond the
  range of doubles parses to; JSON gives no NaN. A string is the list of its code points.
  \<open>Obj\<close> lists the own properties of an object in the order of the JSON text; a later
  entry for the same name replaces an earlier one.
\<close>

datatype Value =
    Undefined
  | Null
  | Bool bool
  | Num real
  | Infinite bool
  | Str string
  | Arr "Value list"
  | Obj "(string \<times> Value) list"
  | Builtin string

definition nullish :: "Value \<Rightarrow> bool" where
  "nullish v = (v = Undefined \<or> v = Null)"

text \<open>\<^verbatim>\<open>!v\<close> is the negation of \<open>truthy v\<close>.\<close>

fun truthy :: "Value \<Rightarrow> bool" where
  "truthy Undefined = False"
| "truthy Null = False"
| "truthy (Bool b) = b"
| "truthy (Num x) = (x \<noteq> 0)"
| "truthy (Infinite negative) = True"
| "truthy (Str s) = (s \<noteq> [])"
| "truthy (Arr xs) = True"
| "truthy (Obj ps) = True"
| "truthy (Builtin k) = True"

definition own_property :: "Value \<Rightarrow> string \<Rightarrow> Value option" where
  "own_property v name = (case v of Obj ps \<Rightarrow> map_of (rev ps) name | _ \<Rightarrow> None)"

text \<open>
  The property read \<^verbatim>\<open>v.name\<close>, for the five names the program reads (\<^verbatim>\<open>id\<close>, \<^verbatim>\<open>status\<close>,
  \<^verbatim>\<open>claimedBy\<close>, \<^verbatim>\<open>submittedAt\<close>, \<^verbatim>\<open>completedAt\<close>), none of which is defined by the
  prototype of an object, array, string, number, boolean or function. Reading a property
  of \<^verbatim>\<open>null\<close> or \<^verbatim>\<open>undefined\<close> throws a TypeError (\<open>None\<close>). \<open>property\<close> is the same read
  where the value is already known to be neither.
\<close>

definition get :: "Value \<Rightarrow> string \<Rightarrow> Value option" where
  "get v name =
     (if nullish v then None
      else Some (case own_property v name of None \<Rightarrow> Undefined | Some x \<Rightarrow> x))"

definition property :: "Value \<Rightarrow> string \<Rightarrow> Value" where
  "property v name = (case get v name of None \<Rightarrow> Undefined | Some x \<Rightarrow> x)"

text \<open>\<^verbatim>\<open>v || null\<close>.\<close>

definition or_null :: "Value \<Rightarrow> Value" where
  "or_null v = (if truthy v then v else Null)"

text \<open>
  What \<^verbatim>\<open>for (const x of v)\<close> runs through: the elements of an array, the code points of
  a string (each a string of its own); any other JSON value is not iterable and the loop
  throws a TypeError (\<open>None\<close>).
\<close>

definition iterate :: "Value \<Rightarrow> Value list option" where
  "iterate v =
     (case v of
        Arr xs \<Rightarrow> Some xs
      | Str s \<Rightarrow> Some (map (\<lambda>c. Str [c]) s)
      | _ \<Rightarrow> None)"

section \<open>Types\<close>

datatype EventType = BountyCreated | BountyClaimed | BountySubmitted | BountyCompleted

fun event_name :: "EventType \<Rightarrow> string" where
  "event_name BountyCreated = ''bounty.created''"
| "event_name BountyClaimed = ''bounty.claimed''"
| "event_name BountySubmitted = ''bounty.submitted''"
| "event_name BountyCompleted = ''bounty.completed''"

text \<open>
  The position of an event type in the declaration of \<^verbatim>\<open>EventType\<close>, which is also the
  lifecycle order created, claimed, submitted, completed.
\<close>

fun event_rank :: "EventType \<Rightarrow> nat" where
  "event_rank BountyCreated = 0"
| "event_rank BountyClaimed = 1"
| "event_rank BountySubmitted = 2"
| "event_rank BountyCompleted = 3"

record WebhookEndpoint =
  ep_id :: string
  ep_url :: string
  ep_events :: "EventType list"
  ep_active :: bool
  ep_secret :: "string option"
  ep_createdAt :: string

text \<open>\<^verbatim>\<open>bountyId\<close> and \<^verbatim>\<open>data\<close> hold the polled id and the polled record as they came.\<close>

record WebhookEvent =
  ev_id :: string
  ev_type :: EventType
  ev_bountyId :: Value
  ev_data :: Value
  ev_timestamp :: string

datatype DeliveryStatus = Success | Failed

record DeliveryLogEntry =
  le_eventId :: string
  le_endpointId :: string
  le_status :: DeliveryStatus
  le_attempts :: nat
  le_lastAttempt :: string
  le_statusCode :: "int option"

text \<open>
  \<^verbatim>\<open>state.knownBounties\<close> is a plain object used as a dictionary: its own properties, and
  its prototype when an assignment to the key \<^verbatim>\<open>__proto__\<close> has replaced
  \<^verbatim>\<open>Object.prototype\<close> (\<open>None\<close> otherwise).
\<close>

record PlainObject =
  own :: "string \<rightharpoonup> Value"
  proto :: "Value option"

record StateData =
  knownBounties :: PlainObject
  deliveryLog :: "DeliveryLogEntry list"

text \<open>The members of \<^verbatim>\<open>Object.prototype\<close> besides the accessor \<^verbatim>\<open>__proto__\<close>.\<close>

definition Object_prototype_members :: "string list" where
  "Object_prototype_members =
     [''constructor'', ''__defineGetter__'', ''__defineSetter__'', ''hasOwnProperty'',
      ''__lookupGetter__'', ''__lookupSetter__'', ''isPrototypeOf'', ''propertyIsEnumerable'',
      ''toString'', ''valueOf'', ''toLocaleString'']"

definition inherited :: "string \<Rightarrow> Value" where
  "inherited key = (if key \<in> set Object_prototype_members then Builtin key else Undefined)"

text \<open>
  \<^verbatim>\<open>obj[key]\<close>: an own property, else what the prototype chain gives. The getter of
  \<^verbatim>\<open>__proto__\<close> returns the prototype; a replaced prototype is a snapshot object, behind
  which \<^verbatim>\<open>Object.prototype\<close> follows.
\<close>

definition object_get :: "PlainObject \<Rightarrow> string \<Rightarrow> Value" where
  "object_get obj key =
     (case own obj key of
        Some v \<Rightarrow> v
      | None \<Rightarrow>
          if key = ''__proto__''
          then (case proto obj of None \<Rightarrow> Builtin ''__proto__'' | Some p \<Rightarrow> p)
          else (case proto obj of
                  None \<Rightarrow> inherited key
                | Some p \<Rightarrow>
                    (case own_property p key of Some v \<Rightarrow> v | None \<Rightarrow> inherited key)))"

text \<open>
  \<^verbatim>\<open>obj[key] = v\<close> for an object \<open>v\<close>: the setter of \<^verbatim>\<open>__proto__\<close> replaces the prototype and
  creates no property; every other key, inherited or new, becomes or stays an own
  property.
\<close>

definition object_set :: "PlainObject \<Rightarrow> string \<Rightarrow> Value \<Rightarrow> PlainObject" where
  "object_set obj key v =
     (if key = ''__proto__'' \<and> own obj key = None
      then obj\<lparr>proto := Some v\<rparr>
      else obj\<lparr>own := (own obj)(key \<mapsto> v)\<rparr>)"

section \<open>The environment of a run\<close>

text \<open>
  What the program cannot decide itself is a parameter of the model. \<open>respond k\<close> is the
  outcome of the \<open>k\<close>-th webhook POST of the run (counted from 0): \<open>Threw\<close> when the
  \<^verbatim>\<open>fetch\<close> promise rejects, \<open>Resp status\<close> when a response arrives. \<open>clock k\<close> is the
  \<open>k\<close>-th reading of the system clock in epoch milliseconds and \<open>to_iso\<close> formats it as
  \<^verbatim>\<open>toISOString\<close> does. \<open>json_stringify k\<close> is the result of the \<open>k\<close>-th call of
  \<^verbatim>\<open>JSON.stringify\<close> on an event, so that two serialisations of one event need not agree.
  \<open>hmac_sha256_hex key msg\<close> is \<^verbatim>\<open>createHmac("sha256", key).update(msg).digest("hex")\<close> of
  the \<^verbatim>\<open>crypto\<close> library. \<open>write_ok k\<close> says whether the \<open>k\<close>-th \<^verbatim>\<open>writeFileSync\<close> returns
  (otherwise it throws). \<open>number_to_string\<close> is the conversion of a number to a string
  where it is not a safe integer (a fraction, or an integer beyond \<open>2^53 - 1\<close>, which may
  print rounded or in exponent form), and \<open>member_to_string k\<close> the conversion of the
  member \<open>k\<close> of \<^verbatim>\<open>Object.prototype\<close>. Console output is not modelled.
\<close>

datatype FetchResult = Threw | Resp int

record Platform =
  env_HMAC_SECRET :: "string option"
  hmac_sha256_hex :: "string \<Rightarrow> string \<Rightarrow> string"
  json_stringify :: "nat \<Rightarrow> WebhookEvent \<Rightarrow> string"
  respond :: "nat \<Rightarrow> FetchResult"
  clock :: "nat \<Rightarrow> int"
  to_iso :: "int \<Rightarrow> string"
  write_ok :: "nat \<Rightarrow> bool"
  number_to_string :: "real \<Rightarrow> string"
  member_to_string :: "string \<Rightarrow> string"

text \<open>The request of one POST: URL, the five headers and the body.\<close>

record Request =
  rq_url :: string
  rq_content_type :: string
  rq_x_signature :: string
  rq_x_event_type :: string
  rq_x_event_id :: string
  rq_x_webhook_id :: string
  rq_body :: string

text \<open>
  The mutable part: the global \<^verbatim>\<open>state\<close>, the POSTs sent so far, the backoff delays slept
  so far (milliseconds), the counters of the calls above, and what was last written to
  \<^verbatim>\<open>STATE_FILE\<close> (\<open>None\<close> while the file does not exist): the state that
  \<^verbatim>\<open>JSON.stringify(state, null, 2)\<close> was applied to.
\<close>

record World =
  state :: StateData
  posts :: "Request list"
  sleeps :: "nat list"
  clock_reads :: nat
  stringify_calls :: nat
  write_calls :: nat
  disk :: "StateData option"

definition res_ok :: "int \<Rightarrow> bool" where
  "res_ok status = (200 \<le> status \<and> status \<le> 299)"

definition date_now :: "Platform \<Rightarrow> World \<Rightarrow> int \<times> World" where
  "date_now P w = (clock P (clock_reads w), w\<lparr>clock_reads := Suc (clock_reads w)\<rparr>)"

definition now_iso :: "Platform \<Rightarrow> World \<Rightarrow> string \<times> World" where
  "now_iso P w = (to_iso P (clock P (clock_reads w)), w\<lparr>clock_reads := Suc (clock_reads w)\<rparr>)"

definition JSON_stringify :: "Platform \<Rightarrow> WebhookEvent \<Rightarrow> World \<Rightarrow> string \<times> World" where
  "JSON_stringify P event w =
     (json_stringify P (stringify_calls w) event, w\<lparr>stringify_calls := Suc (stringify_calls w)\<rparr>)"

definition fetch_post :: "Platform \<Rightarrow> Request \<Rightarrow> World \<Rightarrow> FetchResult \<times> World" where
  "fetch_post P rq w = (respond P (length (posts w)), w\<lparr>posts := posts w @ [rq]\<rparr>)"

definition sleep :: "nat \<Rightarrow> World \<Rightarrow> World" where
  "sleep ms w = w\<lparr>sleeps := sleeps w @ [ms]\<rparr>"

definition log_push :: "DeliveryLogEntry \<Rightarrow> World \<Rightarrow> World" where
  "log_push entry w = w\<lparr>state := (state w)\<lparr>deliveryLog := deliveryLog (state w) @ [entry]\<rparr>\<rparr>"

definition writeFileSync :: "Platform \<Rightarrow> StateData \<Rightarrow> World \<Rightarrow> bool \<times> World" where
  "writeFileSync P content w =
     (if write_ok P (write_calls w)
      then (True, w\<lparr>write_calls := Suc (write_calls w), disk := Some content\<rparr>)
      else (False, w\<lparr>write_calls := Suc (write_calls w)\<rparr>))"

section \<open>Conversion to strings\<close>

text \<open>Decimal digits of an integer.\<close>

fun show_nat :: "nat \<Rightarrow> string" where
  "show_nat n =
     (if n < 10 then [''0123456789'' ! n]
      else show_nat (n div 10) @ [''0123456789'' ! (n mod 10)])"

declare show_nat.simps [simp del]

definition show_int :: "int \<Rightarrow> string" where
  "show_int i = (if i < 0 then CHR ''-'' # show_nat (nat (- i)) else show_nat (nat i))"

text \<open>
  The conversion of a number to a string: a safe integer prints its decimal digits; for
  every other number the result is the platform's.
\<close>

definition Number_toString :: "Platform \<Rightarrow> real \<Rightarrow> string" where
  "Number_toString P x =
     (if x \<in> \<int> \<and> \<bar>x\<bar> \<le> 9007199254740991 then show_int \<lfloor>x\<rfloor> else number_to_string P x)"

text \<open>
  The conversion of a value to a string, as a template literal and a computed property
  key apply it. An array joins the conversions of its elements with commas, \<^verbatim>\<open>null\<close> and
  \<^verbatim>\<open>undefined\<close> elements giving the empty string. An object gives \<^verbatim>\<open>[object Object]\<close>
  through the inherited \<^verbatim>\<open>toString\<close>; if it has an own property \<^verbatim>\<open>toString\<close>, which in a
  JSON value is never a function, neither that nor \<^verbatim>\<open>valueOf\<close> yields a primitive and the
  conversion throws a TypeError (\<open>None\<close>).
\<close>

fun to_string :: "Platform \<Rightarrow> Value \<Rightarrow> string option"
  and join_strings :: "Platform \<Rightarrow> Value list \<Rightarrow> string option" where
  "to_string P Undefined = Some ''undefined''"
| "to_string P Null = Some ''null''"
| "to_string P (Bool b) = Some (if b then ''true'' else ''false'')"
| "to_string P (Num x) = Some (Number_toString P x)"
| "to_string P (Infinite negative) = Some (if negative then ''-Infinity'' else ''Infinity'')"
| "to_string P (Str s) = Some s"
| "to_string P (Arr xs) = join_strings P xs"
| "to_string P (Obj ps) =
     (if map_of (rev ps) ''toString'' = None then Some ''[object Object]'' else None)"
| "to_string P (Builtin k) = Some (member_to_string P k)"
| "join_strings P [] = Some []"
| "join_strings P [x] = (if nullish x then Some [] else to_string P x)"
| "join_strings P (x # y # ys) =
     (case (if nullish x then Some [] else to_string P x) of
        None \<Rightarrow> None
      | Some s \<Rightarrow>
          (case join_strings P (y # ys) of
             None \<Rightarrow> None
           | Some t \<Rightarrow> Some (s @ '','' @ t)))"

section \<open>Event detection\<close>

text \<open>
  \<^verbatim>\<open>detectEvents\<close> builds a local array with \<^verbatim>\<open>push\<close>; \<open>push_if\<close> is one guarded push.
  Like every function of the program it runs in the world and leaves a world behind;
  the first component of its result is \<open>None\<close> when a property read throws.
  \<^verbatim>\<open>status === "claimed"\<close> holds only of the string itself.
\<close>

definition push_if :: "bool \<Rightarrow> 'a \<Rightarrow> 'a list \<Rightarrow> 'a list" where
  "push_if c x events = (if c then events @ [x] else events)"

definition detectEvents :: "Value \<Rightarrow> Value \<Rightarrow> World \<Rightarrow> EventType list option \<times> World" where
  "detectEvents oldSnapshot newBounty w =
     (case get newBounty ''id'' of
        None \<Rightarrow> (None, w)
      | Some bounty_id \<Rightarrow>
          (case get newBounty ''status'' of
             None \<Rightarrow> (None, w)
           | Some status \<Rightarrow>
               if \<not> truthy oldSnapshot then
                 (Some
                    (push_if (status = Str ''completed'') BountyCompleted
                      (push_if (status = Str ''submitted'') BountySubmitted
                        (push_if (status = Str ''claimed'') BountyClaimed
                          ([] @ [BountyCreated])))),
                  w)
               else
                 (case get oldSnapshot ''status'' of
                    None \<Rightarrow> (None, w)
                  | Some old_status \<Rightarrow>
                      (Some
                         (push_if (old_status \<noteq> Str ''completed'' \<and> status = Str ''completed'')
                            BountyCompleted
                           (push_if (old_status \<noteq> Str ''submitted'' \<and> status = Str ''submitted'')
                              BountySubmitted
                             (push_if (old_status \<noteq> Str ''claimed'' \<and> status = Str ''claimed'')
                                BountyClaimed
                               []))),
                       w))))"

section \<open>Persistence\<close>

text \<open>\<^verbatim>\<open>Array.prototype.slice(start)\<close> with one argument; a negative start counts from the end.\<close>

definition slice_from :: "int \<Rightarrow> 'a list \<Rightarrow> 'a list" where
  "slice_from start xs =
     (let len = int (length xs);
          k = (if start < 0 then max (len + start) 0 else min start len)
      in drop (nat k) xs)"

text \<open>The result is \<open>False\<close> when \<^verbatim>\<open>writeFileSync\<close> throws; the log is trimmed before the write.\<close>

definition saveState :: "Platform \<Rightarrow> World \<Rightarrow> bool \<times> World" where
  "saveState P w =
     (let w1 = (if length (deliveryLog (state w)) > 1000
                then w\<lparr>state := (state w)\<lparr>deliveryLog := slice_from (- 1000) (deliveryLog (state w))\<rparr>\<rparr>
                else w)
      in writeFileSync P (state w1) w1)"

section \<open>HMAC signing\<close>

text \<open>\<^verbatim>\<open>secret || HMAC_SECRET\<close>: an absent and an empty secret are both falsy.\<close>

definition signing_key :: "Platform \<Rightarrow> string option \<Rightarrow> string" where
  "signing_key P secret =
     (case secret of
        None \<Rightarrow> HMAC_SECRET (env_HMAC_SECRET P)
      | Some s \<Rightarrow> if s = [] then HMAC_SECRET (env_HMAC_SECRET P) else s)"

definition signPayload :: "Platform \<Rightarrow> string \<Rightarrow> string option \<Rightarrow> string" where
  "signPayload P payload secret = hmac_sha256_hex P (signing_key P secret) payload"

section \<open>Webhook delivery\<close>

text \<open>The argument of \<^verbatim>\<open>fetch\<close>: the endpoint URL with method POST, headers and body.\<close>

definition post_request :: "WebhookEndpoint \<Rightarrow> WebhookEvent \<Rightarrow> string \<Rightarrow> string \<Rightarrow> Request" where
  "post_request endpoint event payload signature =
     \<lparr>rq_url = ep_url endpoint,
      rq_content_type = ''application/json'',
      rq_x_signature = ''sha256='' @ signature,
      rq_x_event_type = event_name (ev_type event),
      rq_x_event_id = ev_id event,
      rq_x_webhook_id = ep_id endpoint,
      rq_body = payload\<rparr>"

text \<open>
  The body of the \<^verbatim>\<open>try\<close> block of one loop iteration. The result is \<open>True\<close> when the
  iteration executes \<^verbatim>\<open>return true\<close>. A rejected \<^verbatim>\<open>fetch\<close> jumps to the \<^verbatim>\<open>catch\<close> block, which
  only prints; a response of any status is logged before \<^verbatim>\<open>res.ok\<close> is tested.
\<close>

definition attempt_post ::
  "Platform \<Rightarrow> WebhookEndpoint \<Rightarrow> WebhookEvent \<Rightarrow> string \<Rightarrow> string \<Rightarrow> nat \<Rightarrow> World \<Rightarrow> bool \<times> World" where
  "attempt_post P endpoint event payload signature attempt w =
     (case fetch_post P (post_request endpoint event payload signature) w of
        (Threw, w1) \<Rightarrow> (False, w1)
      | (Resp status, w1) \<Rightarrow>
          (let (t, w2) = now_iso P w1;
               entry = \<lparr>le_eventId = ev_id event,
                        le_endpointId = ep_id endpoint,
                        le_status = (if res_ok status then Success else Failed),
                        le_attempts = attempt,
                        le_lastAttempt = t,
                        le_statusCode = Some status\<rparr>
           in (res_ok status, log_push entry w2)))"

definition backoff :: "nat \<Rightarrow> World \<Rightarrow> World" where
  "backoff attempt w =
     (if attempt < MAX_RETRIES then sleep (RETRY_BASE_MS * 2 ^ (attempt - 1)) w else w)"

text \<open>
  The \<^verbatim>\<open>for\<close> loop from the iteration \<open>attempt\<close> on. The result is \<open>True\<close> when the loop
  left the function with \<^verbatim>\<open>return true\<close>, \<open>False\<close> when it ran to its end.
\<close>

function deliver_loop ::
  "Platform \<Rightarrow> WebhookEndpoint \<Rightarrow> WebhookEvent \<Rightarrow> string \<Rightarrow> string \<Rightarrow> nat \<Rightarrow> World \<Rightarrow> bool \<times> World" where
  "deliver_loop P endpoint event payload signature attempt w =
     (if attempt \<le> MAX_RETRIES then
        (let (returned, w1) = attempt_post P endpoint event payload signature attempt w
         in if returned then (True, w1)
            else deliver_loop P endpoint event payload signature (attempt + 1) (backoff attempt w1))
      else (False, w))"
  by pat_completeness auto
termination
  by (relation "measure (\<lambda>(P, endpoint, event, payload, signature, attempt, w). MAX_RETRIES + 1 - attempt)")
     auto

declare deliver_loop.simps [simp del]

definition deliverWebhook :: "Platform \<Rightarrow> WebhookEndpoint \<Rightarrow> WebhookEvent \<Rightarrow> World \<Rightarrow> bool \<times> World" where
  "deliverWebhook P endpoint event w =
     (let (payload, w0) = JSON_stringify P event w;
          signature = signPayload P payload (ep_secret endpoint);
          (returned, w1) = deliver_loop P endpoint event payload signature 1 w0
      in if returned then (True, w1)
         else (let (t, w2) = now_iso P w1
               in (False,
                   log_push \<lparr>le_eventId = ev_id event,
                             le_endpointId = ep_id endpoint,
                             le_status = Failed,
                             le_attempts = MAX_RETRIES,
                             le_lastAttempt = t,
                             le_statusCode = None\<rparr> w2)))"

section \<open>Polling\<close>

text \<open>The object literal assigned to \<^verbatim>\<open>state.knownBounties[id]\<close>.\<close>

definition snapshot_of :: "Value \<Rightarrow> Value" where
  "snapshot_of bounty =
     Obj [(''id'', property bounty ''id''),
          (''status'', property bounty ''status''),
          (''claimedBy'', or_null (property bounty ''claimedBy'')),
          (''submittedAt'', or_null (property bounty ''submittedAt'')),
          (''completedAt'', or_null (property bounty ''completedAt''))]"

text \<open>\<^verbatim>\<open>for (const target of targets) await deliverWebhook(target, event)\<close>; the result is dropped.\<close>

fun deliver_targets :: "Platform \<Rightarrow> WebhookEvent \<Rightarrow> WebhookEndpoint list \<Rightarrow> World \<Rightarrow> World" where
  "deliver_targets P event [] w = w"
| "deliver_targets P event (target # targets) w =
     deliver_targets P event targets (snd (deliverWebhook P target event w))"

text \<open>
  \<^verbatim>\<open>for (const eventType of events)\<close>: build the event, select the targets, deliver.
  \<open>key\<close> is the conversion of the id to a string, which the template literal of the event
  id applies once more.
\<close>

fun dispatch_events ::
  "Platform \<Rightarrow> WebhookEndpoint list \<Rightarrow> string \<Rightarrow> Value \<Rightarrow> Value \<Rightarrow> EventType list \<Rightarrow> World \<Rightarrow> World" where
  "dispatch_events P webhookEndpoints key bounty_id bounty [] w = w"
| "dispatch_events P webhookEndpoints key bounty_id bounty (eventType # events) w =
     (let (ms, w1) = date_now P w;
          (ts, w2) = now_iso P w1;
          event = \<lparr>ev_id = ''evt_'' @ key @ ''_'' @ event_name eventType
                            @ ''_'' @ Number_toString P (of_int ms),
                   ev_type = eventType,
                   ev_bountyId = bounty_id,
                   ev_data = bounty,
                   ev_timestamp = ts\<rparr>;
          targets = filter (\<lambda>ep. ep_active ep \<and> eventType \<in> set (ep_events ep)) webhookEndpoints
      in dispatch_events P webhookEndpoints key bounty_id bounty events
           (deliver_targets P event targets w2))"

declare dispatch_events.simps [simp del]

text \<open>
  The body of \<^verbatim>\<open>for (const bounty of bounties)\<close>: read the id, look the old snapshot up
  under the id's string, detect, overwrite the snapshot, dispatch. The result is \<open>False\<close>
  when the body throws: at \<^verbatim>\<open>bounty.id\<close> for a \<^verbatim>\<open>null\<close> element, or at the conversion of the
  id to a property key.
\<close>

definition process_bounty :: "Platform \<Rightarrow> WebhookEndpoint list \<Rightarrow> Value \<Rightarrow> World \<Rightarrow> bool \<times> World" where
  "process_bounty P webhookEndpoints bounty w =
     (case get bounty ''id'' of
        None \<Rightarrow> (False, w)
      | Some bounty_id \<Rightarrow>
          (case to_string P bounty_id of
             None \<Rightarrow> (False, w)
           | Some key \<Rightarrow>
               (let old = object_get (knownBounties (state w)) key;
                    (detected, w0) = detectEvents old bounty w
                in case detected of
                     None \<Rightarrow> (False, w0)
                   | Some events \<Rightarrow>
                       (let w1 = w0\<lparr>state := (state w0)
                                    \<lparr>knownBounties :=
                                       object_set (knownBounties (state w0)) key (snapshot_of bounty)\<rparr>\<rparr>
                        in (True, dispatch_events P webhookEndpoints key bounty_id bounty events w1)))))"

text \<open>The loop over the elements; an exception ends it.\<close>

fun process_bounties :: "Platform \<Rightarrow> WebhookEndpoint list \<Rightarrow> Value list \<Rightarrow> World \<Rightarrow> bool \<times> World" where
  "process_bounties P webhookEndpoints [] w = (True, w)"
| "process_bounties P webhookEndpoints (bounty # bounties) w =
     (case process_bounty P webhookEndpoints bounty w of
        (False, w1) \<Rightarrow> (False, w1)
      | (True, w1) \<Rightarrow> process_bounties P webhookEndpoints bounties w1)"

text \<open>
  The outcome of \<^verbatim>\<open>fetch(`${API_BASE}/bounties`)\<close> and of \<^verbatim>\<open>res.json()\<close>: the promise rejects,
  or a response arrives whose body is not JSON (\<^verbatim>\<open>res.json()\<close> throws) or is some JSON
  value.
\<close>

datatype ResponseBody = NotJson | Json Value

datatype UpstreamResult = FetchThrew | FetchResp int ResponseBody

text \<open>
  Every exception inside \<^verbatim>\<open>pollAndDispatch\<close> ends in its \<^verbatim>\<open>catch\<close> block, which only
  prints: what the loop did before it threw stays in memory and \<^verbatim>\<open>saveState\<close> is not
  reached. A throwing \<^verbatim>\<open>saveState\<close> leaves its trimmed log in memory.
\<close>

definition pollAndDispatch ::
  "Platform \<Rightarrow> WebhookEndpoint list \<Rightarrow> UpstreamResult \<Rightarrow> World \<Rightarrow> World" where
  "pollAndDispatch P webhookEndpoints upstream w =
     (case upstream of
        FetchThrew \<Rightarrow> w
      | FetchResp status body \<Rightarrow>
          if \<not> res_ok status then w
          else (case body of
                  NotJson \<Rightarrow> w
                | Json bounties \<Rightarrow>
                    (case iterate bounties of
                       None \<Rightarrow> w
                     | Some elements \<Rightarrow>
                         (case process_bounties P webhookEndpoints elements w of
                            (False, w1) \<Rightarrow> w1
                          | (True, w1) \<Rightarrow> snd (saveState P w1)))))"

section \<open>Vocabulary of the statements\<close>

text \<open>
  An attempt fails when \<^verbatim>\<open>fetch\<close> rejects or the response is not 2xx. \<open>appended w w'\<close> are
  the log entries that \<open>w'\<close> holds beyond those of \<open>w\<close>, \<open>sent w w'\<close> the POSTs made in
  between. \<open>entry_summary\<close> is a log entry without its time stamp.
\<close>

definition attempt_fails :: "FetchResult \<Rightarrow> bool" where
  "attempt_fails r = (case r of Threw \<Rightarrow> True | Resp status \<Rightarrow> \<not> res_ok status)"

definition appended :: "World \<Rightarrow> World \<Rightarrow> DeliveryLogEntry list" where
  "appended w w' = drop (length (deliveryLog (state w))) (deliveryLog (state w'))"

definition sent :: "World \<Rightarrow> World \<Rightarrow> Request list" where
  "sent w w' = drop (length (posts w)) (posts w')"

definition entry_summary :: "DeliveryLogEntry \<Rightarrow> DeliveryStatus \<times> nat \<times> int option" where
  "entry_summary e = (le_status e, le_attempts e, le_statusCode e)"

text \<open>What a failed attempt number \<open>k\<close> leaves in the log: nothing when \<^verbatim>\<open>fetch\<close> rejected.\<close>

definition failure_logged :: "FetchResult \<Rightarrow> nat \<Rightarrow> (DeliveryStatus \<times> nat \<times> int option) list" where
  "failure_logged r k = (case r of Threw \<Rightarrow> [] | Resp status \<Rightarrow> [(Failed, k, Some status)])"


text \<open>
  The property key under which an element is stored (\<open>None\<close> when reading its id or
  converting it throws), and what it means for a stored snapshot to hold the polled state
  of an element, field by field.
\<close>

definition key_of :: "Platform \<Rightarrow> Value \<Rightarrow> string option" where
  "key_of P bounty = (case get bounty ''id'' of None \<Rightarrow> None | Some bounty_id \<Rightarrow> to_string P bounty_id)"

definition holds_polled_state :: "Value \<Rightarrow> Value \<Rightarrow> bool" where
  "holds_polled_state snapshot bounty =
     (property snapshot ''id'' = property bounty ''id''
      \<and> property snapshot ''status'' = property bounty ''status''
      \<and> property snapshot ''claimedBy''
          = (if truthy (property bounty ''claimedBy'') then property bounty ''claimedBy'' else Null)
      \<and> property snapshot ''submittedAt''
          = (if truthy (property bounty ''submittedAt'') then property bounty ''submittedAt'' else Null)
      \<and> property snapshot ''completedAt''
          = (if truthy (property bounty ''completedAt'') then property bounty ''completedAt'' else Null))"

section \<open>Concrete runs\<close>

text \<open>
  A small environment for closed instances: POST outcomes read from a script (a rejected
  \<^verbatim>\<open>fetch\<close> once the script is used up), a clock that advances by one millisecond per
  reading, and stand-ins for the library functions. The runs below contain no number
  other than safe integers and never convert an inherited member to a string, so the two
  last stand-ins are never consulted.
\<close>

definition scripted :: "FetchResult list \<Rightarrow> nat \<Rightarrow> FetchResult" where
  "scripted rs k = (if k < length rs then rs ! k else Threw)"

definition demo_hmac :: "string \<Rightarrow> string \<Rightarrow> string" where
  "demo_hmac key msg = key @ ''/'' @ msg"

definition demo_stringify :: "nat \<Rightarrow> WebhookEvent \<Rightarrow> string" where
  "demo_stringify k event = ev_id event @ ''#'' @ show_nat k"

definition demo_clock :: "nat \<Rightarrow> int" where
  "demo_clock k = 1705312800000 + int k"

definition demo_write_ok :: "nat \<Rightarrow> bool" where
  "demo_write_ok k = True"

definition demo_number_to_string :: "real \<Rightarrow> string" where
  "demo_number_to_string x = ''(a number that is not a safe integer)''"

definition demo_member_to_string :: "string \<Rightarrow> string" where
  "demo_member_to_string k = ''(the inherited member '' @ k @ '')''"

definition demo_platform :: "FetchResult list \<Rightarrow> Platform" where
  "demo_platform rs =
     \<lparr>env_HMAC_SECRET = None,
      hmac_sha256_hex = demo_hmac,
      json_stringify = demo_stringify,
      respond = scripted rs,
      clock = demo_clock,
      to_iso = show_int,
      write_ok = demo_write_ok,
      number_to_string = demo_number_to_string,
      member_to_string = demo_member_to_string\<rparr>"

definition demo_world :: World where
  "demo_world =
     \<lparr>state = \<lparr>knownBounties = \<lparr>own = Map.empty, proto = None\<rparr>, deliveryLog = []\<rparr>,
      posts = [], sleeps = [], clock_reads = 0, stringify_calls = 0, write_calls = 0,
      disk = None\<rparr>"

definition demo_endpoint :: WebhookEndpoint where
  "demo_endpoint =
     \<lparr>ep_id = ''wh_1'', ep_url = ''https://example.org/hook'',
      ep_events = [BountyCreated, BountyClaimed, BountySubmitted, BountyCompleted],
      ep_active = True, ep_secret = Some ''s3cret'', ep_createdAt = ''2025-01-15''\<rparr>"

text \<open>The record \<^verbatim>\<open>{"id": 42, "status": status}\<close> and the snapshot built from it.\<close>

definition demo_bounty :: "string \<Rightarrow> Value" where
  "demo_bounty status = Obj [(''id'', Num 42), (''status'', Str status)]"

definition demo_snapshot :: "string \<Rightarrow> Value" where
  "demo_snapshot status =
     Obj [(''id'', Num 42), (''status'', Str status), (''claimedBy'', Null),
          (''submittedAt'', Null), (''completedAt'', Null)]"

definition demo_event :: WebhookEvent where
  "demo_event =
     \<lparr>ev_id = ''evt_42_bounty.created_1705312800000'', ev_type = BountyCreated,
      ev_bountyId = Num 42, ev_data = demo_bounty ''open'', ev_timestamp = ''2025-01-15''\<rparr>"

definition demo_entry :: "nat \<Rightarrow> DeliveryLogEntry" where
  "demo_entry k =
     \<lparr>le_eventId = ''evt_42_bounty.created_1705312800000'', le_endpointId = ''wh_1'',
      le_status = Success, le_attempts = k, le_lastAttempt = ''2025-01-15'',
      le_statusCode = Some 200\<rparr>"

definition demo_world_with_log :: "nat \<Rightarrow> World" where
  "demo_world_with_log n =
     demo_world\<lparr>state :=
       \<lparr>knownBounties = \<lparr>own = Map.empty, proto = None\<rparr>, deliveryLog = map demo_entry [0..<n]\<rparr>\<rparr>"

text \<open>A store that already knows bounty 42 as open and claimed by someone, and bounty 7.\<close>

definition demo_world_known :: World where
  "demo_world_known =
     demo_world\<lparr>state :=
       \<lparr>knownBounties =
          \<lparr>own = [''42'' \<mapsto> Obj [(''id'', Num 42), (''status'', Str ''open''),
                                  (''claimedBy'', Str ''alice''), (''submittedAt'', Null),
                                  (''completedAt'', Null)],
                   ''7'' \<mapsto> Obj [(''id'', Num 7), (''status'', Str ''claimed''),
                                 (''claimedBy'', Null), (''submittedAt'', Null),
                                 (''completedAt'', Null)]],
           proto = None\<rparr>,
        deliveryLog = []\<rparr>\<rparr>"

section \<open>Properties of event detection\<close>

lemma get_Some_property: "\<not> nullish v \<Longrightarrow> get v name = Some (property v name)"
  by (simp add: get_def property_def)

lemma get_None_nullish: "get v name = None \<longleftrightarrow> nullish v"
  by (simp add: get_def)

lemma truthy_not_nullish: "truthy v \<Longrightarrow> \<not> nullish v"
  by (cases v) (simp_all add: nullish_def)

lemma detectEvents_returns:
  assumes "\<not> nullish new"
  shows "\<exists>events. detectEvents old new w = (Some events, w)"
proof (cases "truthy old")
  case True
  with assms truthy_not_nullish [OF True] show ?thesis
    by (simp add: detectEvents_def get_Some_property)
next
  case False
  with assms show ?thesis
    by (simp add: detectEvents_def get_Some_property)
qed

text \<open>
  C4. A record seen for the first time (no previous snapshot: the store gave a falsy
  value) yields \<open>created\<close> first, followed by the events among \<open>claimed\<close>, \<open>submitted\<close>,
  \<open>completed\<close> whose name is the current status, each tested on its own: at most one, so
  at most two events in all. With status \<^verbatim>\<open>"completed"\<close> the result is exactly \<open>created\<close>,
  \<open>completed\<close>, and neither \<open>claimed\<close> nor \<open>submitted\<close> occurs.
\<close>

theorem detectEvents_first_sighting:
  assumes "\<not> nullish b" and "\<not> truthy old"
  shows "\<exists>events. fst (detectEvents old b w) = Some events
           \<and> events = BountyCreated #
               filter (\<lambda>e. property b ''status'' = Str (drop 7 (event_name e)))
                 [BountyClaimed, BountySubmitted, BountyCompleted]
           \<and> length events \<le> 2
           \<and> (property b ''status'' = Str ''completed'' \<longrightarrow>
                events = [BountyCreated, BountyCompleted]
                \<and> BountyClaimed \<notin> set events \<and> BountySubmitted \<notin> set events)"
  using assms
  by (auto simp add: detectEvents_def get_Some_property push_if_def)

theorem detectEvents_first_sighting_witness:
  "\<not> nullish (demo_bounty ''completed'') \<and> \<not> truthy Undefined
   \<and> property (demo_bounty ''completed'') ''status'' = Str ''completed''
   \<and> fst (detectEvents Undefined (demo_bounty ''completed'') demo_world)
       = Some [BountyCreated, BountyCompleted]"
proof -
  have b: "\<not> nullish (demo_bounty ''completed'')" by (simp add: demo_bounty_def nullish_def)
  have o: "\<not> truthy Undefined" by simp
  have s: "property (demo_bounty ''completed'') ''status'' = Str ''completed''"
    by (simp add: demo_bounty_def property_def get_def own_property_def nullish_def)
  from detectEvents_first_sighting [OF b o, of demo_world] b o s show ?thesis by auto
qed

text \<open>
  C3, as stated, fails: the three tests compare the old status with one fixed string
  each and know no order of the lifecycle, so a record that goes from \<^verbatim>\<open>"completed"\<close> back
  to \<^verbatim>\<open>"claimed"\<close> emits \<open>claimed\<close>.
\<close>

theorem detectEvents_regression_counterexample:
  "truthy (demo_snapshot ''completed'')
   \<and> property (demo_snapshot ''completed'') ''status'' = Str ''completed''
   \<and> property (demo_bounty ''claimed'') ''status'' = Str ''claimed''
   \<and> fst (detectEvents (demo_snapshot ''completed'') (demo_bounty ''claimed'') demo_world)
       = Some [BountyClaimed]
   \<and> fst (detectEvents (demo_snapshot ''completed'') (demo_bounty ''claimed'') demo_world)
       \<noteq> Some []"
  by (simp add: detectEvents_def push_if_def demo_bounty_def demo_snapshot_def
        property_def get_def own_property_def nullish_def)

text \<open>
  C3, amended. With a previous snapshot, no event is emitted when the status is unchanged,
  or when the current status is none of \<^verbatim>\<open>"claimed"\<close>, \<^verbatim>\<open>"submitted"\<close>, \<^verbatim>\<open>"completed"\<close> (so
  a regression to any other status is silent). A change of status to one of the three
  emits exactly that event, whatever the previous status was.
\<close>

theorem detectEvents_existing_snapshot:
  assumes "truthy old" and "\<not> nullish new"
  shows "(property old ''status'' = property new ''status''
          \<or> property new ''status'' \<notin> {Str ''claimed'', Str ''submitted'', Str ''completed''}
            \<longrightarrow> fst (detectEvents old new w) = Some [])
   \<and> (property old ''status'' \<noteq> property new ''status'' \<and> property new ''status'' = Str ''claimed''
      \<longrightarrow> fst (detectEvents old new w) = Some [BountyClaimed])
   \<and> (property old ''status'' \<noteq> property new ''status'' \<and> property new ''status'' = Str ''submitted''
      \<longrightarrow> fst (detectEvents old new w) = Some [BountySubmitted])
   \<and> (property old ''status'' \<noteq> property new ''status'' \<and> property new ''status'' = Str ''completed''
      \<longrightarrow> fst (detectEvents old new w) = Some [BountyCompleted])"
  using assms truthy_not_nullish [OF assms(1)]
  by (auto simp add: detectEvents_def get_Some_property push_if_def)

theorem detectEvents_existing_snapshot_witness:
  "fst (detectEvents (demo_snapshot ''claimed'') (demo_bounty ''claimed'') demo_world) = Some []
   \<and> fst (detectEvents (demo_snapshot ''completed'') (demo_bounty ''open'') demo_world) = Some []
   \<and> fst (detectEvents (demo_snapshot ''open'') (demo_bounty ''claimed'') demo_world)
       = Some [BountyClaimed]
   \<and> fst (detectEvents (demo_snapshot ''claimed'') (demo_bounty ''submitted'') demo_world)
       = Some [BountySubmitted]
   \<and> fst (detectEvents (demo_snapshot ''submitted'') (demo_bounty ''completed'') demo_world)
       = Some [BountyCompleted]"
proof -
  have t: "truthy (demo_snapshot s)" for s by (simp add: demo_snapshot_def)
  have n: "\<not> nullish (demo_bounty s)" for s by (simp add: demo_bounty_def nullish_def)
  have so: "property (demo_snapshot s) ''status'' = Str s" for s
    by (simp add: demo_snapshot_def property_def get_def own_property_def nullish_def)
  have sn: "property (demo_bounty s) ''status'' = Str s" for s
    by (simp add: demo_bounty_def property_def get_def own_property_def nullish_def)
  from detectEvents_existing_snapshot [OF t n, of "''claimed''" "''claimed''" demo_world]
       detectEvents_existing_snapshot [OF t n, of "''completed''" "''open''" demo_world]
       detectEvents_existing_snapshot [OF t n, of "''open''" "''claimed''" demo_world]
       detectEvents_existing_snapshot [OF t n, of "''claimed''" "''submitted''" demo_world]
       detectEvents_existing_snapshot [OF t n, of "''submitted''" "''completed''" demo_world]
  show ?thesis by (simp add: so sn)
qed

text \<open>
  C9. A call of \<^verbatim>\<open>detectEvents\<close> leaves the world as it found it: the global state with
  the snapshot store and the log, the requests sent, the clock readings, the file. Its
  result does not depend on the world it runs in, so a second call on the same pair,
  made in the world the first call left behind, returns the same events.
\<close>

theorem detectEvents_pure:
  "snd (detectEvents old new w) = w
   \<and> knownBounties (state (snd (detectEvents old new w))) = knownBounties (state w)
   \<and> fst (detectEvents old new (snd (detectEvents old new w))) = fst (detectEvents old new w)
   \<and> fst (detectEvents old new w') = fst (detectEvents old new w)"
  by (simp add: detectEvents_def split: option.splits)

text \<open>
  C10. A call of \<^verbatim>\<open>detectEvents\<close> throws only when the record is \<^verbatim>\<open>null\<close> or \<^verbatim>\<open>undefined\<close>.
  What it returns never repeats an event type and lists the types in the order created,
  claimed, submitted, completed. With a previous snapshot it has at most one event and
  never \<open>created\<close>; without one it has at most two events.
\<close>

theorem detectEvents_shape:
  "(case fst (detectEvents old new w) of
      None \<Rightarrow> nullish new
    | Some events \<Rightarrow>
        \<not> nullish new
        \<and> distinct events
        \<and> sorted_wrt (\<lambda>a b. event_rank a < event_rank b) events
        \<and> (truthy old \<longrightarrow> length events \<le> 1 \<and> BountyCreated \<notin> set events)
        \<and> (\<not> truthy old \<longrightarrow> length events \<le> 2))"
proof (cases "nullish new")
  case True
  then show ?thesis by (simp add: detectEvents_def get_def)
next
  case False
  show ?thesis
  proof (cases "truthy old")
    case True
    with False truthy_not_nullish [OF True] show ?thesis
      by (auto simp add: detectEvents_def get_Some_property push_if_def)
  next
    case old: False
    with False show ?thesis
      by (auto simp add: detectEvents_def get_Some_property push_if_def)
  qed
qed

theorem detectEvents_shape_witness:
  "fst (detectEvents (demo_snapshot ''open'') (demo_bounty ''claimed'') demo_world) = Some [BountyClaimed]
   \<and> truthy (demo_snapshot ''open'')
   \<and> length [BountyClaimed] \<le> 1 \<and> BountyCreated \<notin> set [BountyClaimed]
   \<and> fst (detectEvents Undefined (demo_bounty ''claimed'') demo_world)
       = Some [BountyCreated, BountyClaimed]
   \<and> fst (detectEvents Undefined Null demo_world) = None"
proof -
  have e1: "fst (detectEvents (demo_snapshot ''open'') (demo_bounty ''claimed'') demo_world)
              = Some [BountyClaimed]"
    and e2: "fst (detectEvents Undefined (demo_bounty ''claimed'') demo_world)
              = Some [BountyCreated, BountyClaimed]"
    and e3: "fst (detectEvents Undefined Null demo_world) = None"
    by (simp_all add: detectEvents_def push_if_def demo_bounty_def demo_snapshot_def
          get_def own_property_def nullish_def)
  from detectEvents_shape [of "demo_snapshot ''open''" "demo_bounty ''claimed''" demo_world]
       detectEvents_shape [of Undefined "demo_bounty ''claimed''" demo_world]
       detectEvents_shape [of Undefined Null demo_world] e1 e2 e3
  show ?thesis by (simp add: demo_snapshot_def)
qed

section \<open>Properties of persistence\<close>

lemma slice_from_negative:
  assumes "0 < k"
  shows "slice_from (- int k) xs = drop (length xs - k) xs"
proof -
  have "nat (max (int (length xs) + - int k) 0) = length xs - k"
    by (simp add: max_def) linarith
  with assms show ?thesis
    by (simp add: slice_from_def Let_def)
qed

lemma slice_from_minus_1000: "slice_from (- 1000) xs = drop (length xs - 1000) xs"
  using slice_from_negative [of 1000 xs] by simp

text \<open>
  C7. After \<^verbatim>\<open>saveState\<close> the in-memory delivery log has at most 1000 entries, whether or
  not the file write succeeds. A log of more than 1000 entries is cut to its last 1000,
  in their order, the oldest being dropped; a shorter log is left as it is. When the
  write succeeds the file holds the state with the trimmed log.
\<close>

theorem saveState_log_bound:
  "length (deliveryLog (state (snd (saveState P w)))) \<le> 1000
   \<and> (1000 < length (deliveryLog (state w)) \<longrightarrow>
        deliveryLog (state (snd (saveState P w)))
          = drop (length (deliveryLog (state w)) - 1000) (deliveryLog (state w))
        \<and> length (deliveryLog (state (snd (saveState P w)))) = 1000)
   \<and> (length (deliveryLog (state w)) \<le> 1000 \<longrightarrow>
        deliveryLog (state (snd (saveState P w))) = deliveryLog (state w))
   \<and> (fst (saveState P w) \<longrightarrow> disk (snd (saveState P w)) = Some (state (snd (saveState P w))))"
  by (auto simp add: saveState_def writeFileSync_def slice_from_minus_1000 Let_def)

theorem saveState_log_bound_witness:
  "1000 < length (deliveryLog (state (demo_world_with_log 1003)))
   \<and> deliveryLog (state (snd (saveState (demo_platform []) (demo_world_with_log 1003))))
       = map demo_entry [3..<1003]
   \<and> length (deliveryLog (state (snd (saveState (demo_platform []) (demo_world_with_log 1003))))) = 1000
   \<and> fst (saveState (demo_platform []) (demo_world_with_log 1003))"
  using saveState_log_bound [of "demo_platform []" "demo_world_with_log 1003"]
  by (simp add: demo_world_with_log_def demo_world_def drop_map saveState_def writeFileSync_def
        demo_platform_def demo_write_ok_def slice_from_minus_1000 Let_def
        del: upt_rec_numeral)

section \<open>Lemmas about the delivery loop\<close>

lemma attempt_post_Threw:
  "respond P (length (posts w)) = Threw \<Longrightarrow>
   attempt_post P endpoint event payload signature attempt w
     = (False, w\<lparr>posts := posts w @ [post_request endpoint event payload signature]\<rparr>)"
  by (simp add: attempt_post_def fetch_post_def)

lemma attempt_post_Resp:
  "respond P (length (posts w)) = Resp status \<Longrightarrow>
   attempt_post P endpoint event payload signature attempt w
     = (res_ok status,
        log_push \<lparr>le_eventId = ev_id event, le_endpointId = ep_id endpoint,
                  le_status = (if res_ok status then Success else Failed),
                  le_attempts = attempt,
                  le_lastAttempt = to_iso P (clock P (clock_reads w)),
                  le_statusCode = Some status\<rparr>
          (w\<lparr>posts := posts w @ [post_request endpoint event payload signature],
             clock_reads := Suc (clock_reads w)\<rparr>))"
  by (simp add: attempt_post_def fetch_post_def now_iso_def Let_def)

text \<open>What one iteration does to the world, whatever the outcome.\<close>

lemma attempt_post_effect:
  assumes "attempt_post P endpoint event payload signature attempt w = (returned, w1)"
  shows "posts w1 = posts w @ [post_request endpoint event payload signature]"
    and "knownBounties (state w1) = knownBounties (state w)"
    and "stringify_calls w1 = stringify_calls w"
    and "write_calls w1 = write_calls w"
    and "disk w1 = disk w"
    and "sleeps w1 = sleeps w"
    and "returned = (\<not> attempt_fails (respond P (length (posts w))))"
    and "\<exists>es. deliveryLog (state w1) = deliveryLog (state w) @ es
            \<and> (\<forall>e\<in>set es. le_eventId e = ev_id event \<and> le_endpointId e = ep_id endpoint)
            \<and> map entry_summary es =
                (case respond P (length (posts w)) of
                   Threw \<Rightarrow> []
                 | Resp status \<Rightarrow> [(if res_ok status then Success else Failed, attempt, Some status)])"
  using assms
  by (cases "respond P (length (posts w))";
      auto simp add: attempt_post_Threw attempt_post_Resp log_push_def attempt_fails_def entry_summary_def)+

lemma backoff_effect:
  "posts (backoff attempt w) = posts w"
  "state (backoff attempt w) = state w"
  "stringify_calls (backoff attempt w) = stringify_calls w"
  "write_calls (backoff attempt w) = write_calls w"
  "disk (backoff attempt w) = disk w"
  by (simp_all add: backoff_def sleep_def)


lemma deliver_loop_exit:
  "MAX_RETRIES < attempt \<Longrightarrow> deliver_loop P endpoint event payload signature attempt w = (False, w)"
  by (subst deliver_loop.simps) simp

lemma deliver_loop_failed_step:
  assumes "attempt \<le> MAX_RETRIES" and "attempt_fails (respond P (length (posts w)))"
  shows "deliver_loop P endpoint event payload signature attempt w
           = deliver_loop P endpoint event payload signature (attempt + 1)
               (backoff attempt (snd (attempt_post P endpoint event payload signature attempt w)))"
proof -
  obtain returned w1 where a: "attempt_post P endpoint event payload signature attempt w = (returned, w1)"
    by (cases "attempt_post P endpoint event payload signature attempt w")
  from attempt_post_effect(7) [OF a] assms(2) have "\<not> returned" by simp
  with a assms(1) show ?thesis
    by (subst deliver_loop.simps) simp
qed

lemma deliver_loop_success_step:
  assumes "attempt \<le> MAX_RETRIES" and "\<not> attempt_fails (respond P (length (posts w)))"
  shows "deliver_loop P endpoint event payload signature attempt w
           = (True, snd (attempt_post P endpoint event payload signature attempt w))"
proof -
  obtain returned w1 where a: "attempt_post P endpoint event payload signature attempt w = (returned, w1)"
    by (cases "attempt_post P endpoint event payload signature attempt w")
  from attempt_post_effect(7) [OF a] assms(2) have "returned" by simp
  with a assms(1) show ?thesis
    by (subst deliver_loop.simps) simp
qed

text \<open>
  \<open>n\<close> failing iterations in a row, from iteration \<open>attempt\<close> on: the loop continues at
  iteration \<open>attempt + n\<close> in a world that has \<open>n\<close> more POSTs and one log entry more for
  each response received.
\<close>

lemma deliver_loop_failures:
  assumes "\<forall>k<n. attempt_fails (respond P (length (posts w) + k))"
    and "attempt + n \<le> MAX_RETRIES + 1"
  shows "\<exists>w1 es.
           deliver_loop P endpoint event payload signature attempt w
             = deliver_loop P endpoint event payload signature (attempt + n) w1
           \<and> posts w1 = posts w @ replicate n (post_request endpoint event payload signature)
           \<and> deliveryLog (state w1) = deliveryLog (state w) @ es
           \<and> (\<forall>e\<in>set es. le_eventId e = ev_id event \<and> le_endpointId e = ep_id endpoint)
           \<and> map entry_summary es
               = concat (map (\<lambda>k. failure_logged (respond P (length (posts w) + k)) (attempt + k)) [0..<n])
           \<and> knownBounties (state w1) = knownBounties (state w)
           \<and> stringify_calls w1 = stringify_calls w
           \<and> write_calls w1 = write_calls w
           \<and> disk w1 = disk w"
  using assms
proof (induction n)
  case 0
  show ?case by (intro exI [of _ w] exI [of _ "[]"]) simp
next
  case (Suc n)
  from Suc.prems have "\<forall>k<n. attempt_fails (respond P (length (posts w) + k))"
    and "attempt + n \<le> MAX_RETRIES + 1" by simp_all
  from Suc.IH [OF this] obtain w1 es where
    loop: "deliver_loop P endpoint event payload signature attempt w
             = deliver_loop P endpoint event payload signature (attempt + n) w1"
    and posts1: "posts w1 = posts w @ replicate n (post_request endpoint event payload signature)"
    and log1: "deliveryLog (state w1) = deliveryLog (state w) @ es"
    and ids1: "\<forall>e\<in>set es. le_eventId e = ev_id event \<and> le_endpointId e = ep_id endpoint"
    and sum1: "map entry_summary es
               = concat (map (\<lambda>k. failure_logged (respond P (length (posts w) + k)) (attempt + k)) [0..<n])"
    and frame1: "knownBounties (state w1) = knownBounties (state w)"
      "stringify_calls w1 = stringify_calls w" "write_calls w1 = write_calls w" "disk w1 = disk w"
    by blast
  have len1: "length (posts w1) = length (posts w) + n" by (simp add: posts1)
  from Suc.prems have fails: "attempt_fails (respond P (length (posts w1)))"
    and bound: "attempt + n \<le> MAX_RETRIES" by (simp_all add: len1)
  obtain returned w2 where
    a: "attempt_post P endpoint event payload signature (attempt + n) w1 = (returned, w2)"
    by (cases "attempt_post P endpoint event payload signature (attempt + n) w1")
  note eff = attempt_post_effect [OF a]
  from eff(8) obtain es2 where
    log2: "deliveryLog (state w2) = deliveryLog (state w1) @ es2"
    and ids2: "\<forall>e\<in>set es2. le_eventId e = ev_id event \<and> le_endpointId e = ep_id endpoint"
    and sum2: "map entry_summary es2 =
                (case respond P (length (posts w1)) of
                   Threw \<Rightarrow> []
                 | Resp status \<Rightarrow> [(if res_ok status then Success else Failed, attempt + n, Some status)])"
    by blast
  from fails sum2 have sum2':
    "map entry_summary es2 = failure_logged (respond P (length (posts w) + n)) (attempt + n)"
    by (auto simp add: failure_logged_def attempt_fails_def len1 split: FetchResult.splits)
  let ?w3 = "backoff (attempt + n) w2"
  have step: "deliver_loop P endpoint event payload signature (attempt + n) w1
                = deliver_loop P endpoint event payload signature (attempt + Suc n) ?w3"
    using deliver_loop_failed_step [OF bound fails, of endpoint event payload signature] a by simp
  show ?case
  proof (intro exI [of _ ?w3] exI [of _ "es @ es2"] conjI)
    show "deliver_loop P endpoint event payload signature attempt w
            = deliver_loop P endpoint event payload signature (attempt + Suc n) ?w3"
      using loop step by simp
    show "posts ?w3 = posts w @ replicate (Suc n) (post_request endpoint event payload signature)"
      by (simp add: backoff_effect eff(1) posts1 replicate_append_same)
    show "deliveryLog (state ?w3) = deliveryLog (state w) @ es @ es2"
      by (simp add: backoff_effect log2 log1)
    show "\<forall>e\<in>set (es @ es2). le_eventId e = ev_id event \<and> le_endpointId e = ep_id endpoint"
      using ids1 ids2 by auto
    show "map entry_summary (es @ es2)
            = concat (map (\<lambda>k. failure_logged (respond P (length (posts w) + k)) (attempt + k)) [0..<Suc n])"
      by (simp add: sum1 sum2')
    show "knownBounties (state ?w3) = knownBounties (state w)"
      by (simp add: backoff_effect eff(2) frame1)
    show "stringify_calls ?w3 = stringify_calls w"
      by (simp add: backoff_effect eff(3) frame1)
    show "write_calls ?w3 = write_calls w"
      by (simp add: backoff_effect eff(4) frame1)
    show "disk ?w3 = disk w"
      by (simp add: backoff_effect eff(5) frame1)
  qed
qed


text \<open>What the loop leaves untouched and what it sends, whatever the endpoint answers.\<close>

lemma deliver_loop_frame:
  "deliver_loop P endpoint event payload signature attempt w = (returned, w') \<Longrightarrow>
     knownBounties (state w') = knownBounties (state w)
     \<and> stringify_calls w' = stringify_calls w
     \<and> write_calls w' = write_calls w
     \<and> disk w' = disk w
     \<and> (\<exists>m. m \<le> MAX_RETRIES + 1 - attempt \<and> (attempt \<le> MAX_RETRIES \<longrightarrow> 1 \<le> m)
            \<and> posts w' = posts w @ replicate m (post_request endpoint event payload signature))"
proof (induction P endpoint event payload signature attempt w arbitrary: returned w'
       rule: deliver_loop.induct)
  case (1 P endpoint event payload signature attempt w)
  show ?case
  proof (cases "attempt \<le> MAX_RETRIES")
    case False
    with "1.prems" have "w' = w" by (simp add: deliver_loop_exit)
    with False show ?thesis by simp
  next
    case True
    obtain r1 w1 where a: "attempt_post P endpoint event payload signature attempt w = (r1, w1)"
      by (cases "attempt_post P endpoint event payload signature attempt w")
    note eff = attempt_post_effect [OF a]
    show ?thesis
    proof (cases r1)
      case True
      with a \<open>attempt \<le> MAX_RETRIES\<close> "1.prems" have "w' = w1"
        by (subst (asm) deliver_loop.simps) simp
      with eff \<open>attempt \<le> MAX_RETRIES\<close> show ?thesis
        by (auto intro!: exI [of _ 1])
    next
      case False
      with a \<open>attempt \<le> MAX_RETRIES\<close> "1.prems"
      have rest: "deliver_loop P endpoint event payload signature (attempt + 1) (backoff attempt w1)
                    = (returned, w')"
        by (subst (asm) deliver_loop.simps) simp
      from "1.IH" [OF \<open>attempt \<le> MAX_RETRIES\<close> a [symmetric] refl _ rest] False
      obtain m where m: "m \<le> MAX_RETRIES + 1 - (attempt + 1)"
        and posts': "posts w' = posts (backoff attempt w1)
                       @ replicate m (post_request endpoint event payload signature)"
        and frame: "knownBounties (state w') = knownBounties (state (backoff attempt w1))"
          "stringify_calls w' = stringify_calls (backoff attempt w1)"
          "write_calls w' = write_calls (backoff attempt w1)"
          "disk w' = disk (backoff attempt w1)"
        by auto
      have "posts w' = posts w @ replicate (Suc m) (post_request endpoint event payload signature)"
        by (simp add: posts' backoff_effect eff(1))
      moreover from m \<open>attempt \<le> MAX_RETRIES\<close> have "Suc m \<le> MAX_RETRIES + 1 - attempt" by simp
      ultimately show ?thesis
        using frame eff by (auto simp add: backoff_effect intro!: exI [of _ "Suc m"])
    qed
  qed
qed

section \<open>Properties of webhook delivery\<close>

lemma appended_append: "deliveryLog (state w') = deliveryLog (state w) @ es \<Longrightarrow> appended w w' = es"
  by (simp add: appended_def)

lemma sent_append: "posts w' = posts w @ rs \<Longrightarrow> sent w w' = rs"
  by (simp add: sent_def)

text \<open>\<^verbatim>\<open>deliverWebhook\<close> in terms of its loop.\<close>

lemma deliverWebhook_unfold:
  assumes "deliver_loop P endpoint event (json_stringify P (stringify_calls w) event)
             (signPayload P (json_stringify P (stringify_calls w) event) (ep_secret endpoint)) 1
             (w\<lparr>stringify_calls := Suc (stringify_calls w)\<rparr>) = (returned, w1)"
  shows "deliverWebhook P endpoint event w
           = (if returned then (True, w1)
              else (False,
                    log_push \<lparr>le_eventId = ev_id event, le_endpointId = ep_id endpoint,
                              le_status = Failed, le_attempts = MAX_RETRIES,
                              le_lastAttempt = to_iso P (clock P (clock_reads w1)),
                              le_statusCode = None\<rparr>
                      (w1\<lparr>clock_reads := Suc (clock_reads w1)\<rparr>)))"
  using assms by (simp add: deliverWebhook_def JSON_stringify_def now_iso_def Let_def)

text \<open>
  C1, amended. When each of the three attempts fails (\<^verbatim>\<open>fetch\<close> rejects or the response is
  not 2xx), \<^verbatim>\<open>deliverWebhook\<close> returns \<^verbatim>\<open>false\<close> after exactly three POSTs. It appends one
  \<open>failed\<close> entry for each attempt that received a response, carrying that attempt's
  number and the status code, and then one final \<open>failed\<close> entry with attempt count 3 and
  no status code. The final entry is the only one exactly when all three attempts failed
  without a response.
\<close>

theorem deliverWebhook_all_attempts_fail:
  assumes "\<forall>k<3. attempt_fails (respond P (length (posts w) + k))"
    and "w' = snd (deliverWebhook P endpoint event w)"
  shows "\<not> fst (deliverWebhook P endpoint event w)
         \<and> posts w' = posts w @ sent w w' \<and> length (sent w w') = 3
         \<and> deliveryLog (state w') = deliveryLog (state w) @ appended w w'
         \<and> map entry_summary (appended w w')
             = failure_logged (respond P (length (posts w))) 1
               @ failure_logged (respond P (length (posts w) + 1)) 2
               @ failure_logged (respond P (length (posts w) + 2)) 3
               @ [(Failed, 3, None)]
         \<and> (\<forall>e\<in>set (appended w w'). le_eventId e = ev_id event \<and> le_endpointId e = ep_id endpoint)
         \<and> ((\<forall>k<3. respond P (length (posts w) + k) = Threw)
              \<longrightarrow> map entry_summary (appended w w') = [(Failed, 3, None)])"
proof -
  let ?payload = "json_stringify P (stringify_calls w) event"
  let ?signature = "signPayload P ?payload (ep_secret endpoint)"
  let ?w0 = "w\<lparr>stringify_calls := Suc (stringify_calls w)\<rparr>"
  have "\<forall>k<3. attempt_fails (respond P (length (posts ?w0) + k))" using assms(1) by simp
  moreover have "1 + 3 \<le> MAX_RETRIES + 1" by (simp add: MAX_RETRIES_def)
  ultimately obtain w1 es where
    loop: "deliver_loop P endpoint event ?payload ?signature 1 ?w0
             = deliver_loop P endpoint event ?payload ?signature (1 + 3) w1"
    and posts1: "posts w1 = posts ?w0 @ replicate 3 (post_request endpoint event ?payload ?signature)"
    and log1: "deliveryLog (state w1) = deliveryLog (state ?w0) @ es"
    and ids1: "\<forall>e\<in>set es. le_eventId e = ev_id event \<and> le_endpointId e = ep_id endpoint"
    and sum1: "map entry_summary es
               = concat (map (\<lambda>k. failure_logged (respond P (length (posts ?w0) + k)) (1 + k)) [0..<3])"
    using deliver_loop_failures [of 3 P ?w0 1 endpoint event ?payload ?signature] by blast
  have "deliver_loop P endpoint event ?payload ?signature 1 ?w0 = (False, w1)"
    using loop by (simp add: deliver_loop_exit MAX_RETRIES_def)
  from deliverWebhook_unfold [OF this]
  have res: "deliverWebhook P endpoint event w
           = (False,
                    log_push \<lparr>le_eventId = ev_id event, le_endpointId = ep_id endpoint,
                              le_status = Failed, le_attempts = MAX_RETRIES,
                              le_lastAttempt = to_iso P (clock P (clock_reads w1)),
                              le_statusCode = None\<rparr>
                      (w1\<lparr>clock_reads := Suc (clock_reads w1)\<rparr>))"
    by simp
  let ?final = "\<lparr>le_eventId = ev_id event, le_endpointId = ep_id endpoint,
                              le_status = Failed, le_attempts = MAX_RETRIES,
                              le_lastAttempt = to_iso P (clock P (clock_reads w1)),
                              le_statusCode = None\<rparr>"
  have posts': "posts w' = posts w @ replicate 3 (post_request endpoint event ?payload ?signature)"
    by (simp add: assms(2) res log_push_def posts1)
  have log': "deliveryLog (state w') = deliveryLog (state w) @ (es @ [?final])"
    by (simp add: assms(2) res log_push_def log1)
  have sent': "sent w w' = replicate 3 (post_request endpoint event ?payload ?signature)"
    by (rule sent_append [OF posts'])
  have app': "appended w w' = es @ [?final]"
    by (rule appended_append [OF log'])
  have upt3: "[0..<3] = [0, 1, 2::nat]" by (simp add: upt_conv_Cons)
  have sum': "map entry_summary (appended w w')
             = failure_logged (respond P (length (posts w))) 1
               @ failure_logged (respond P (length (posts w) + 1)) 2
               @ failure_logged (respond P (length (posts w) + 2)) 3
               @ [(Failed, 3, None)]"
    by (simp add: app' sum1 upt3 entry_summary_def MAX_RETRIES_def eval_nat_numeral)
  have thrown: "map entry_summary (appended w w') = [(Failed, 3, None)]"
    if "\<forall>k<3. respond P (length (posts w) + k) = Threw"
  proof -
    from that have "respond P (length (posts w)) = Threw" "respond P (length (posts w) + 1) = Threw"
      "respond P (length (posts w) + 2) = Threw"
      using that [rule_format, of 0] that [rule_format, of 1] that [rule_format, of 2] by simp_all
    then show ?thesis by (simp add: sum' failure_logged_def)
  qed
  show ?thesis
    using res posts' sent' log' app' sum' ids1 thrown by simp
qed


theorem deliverWebhook_all_attempts_fail_witness:
  "\<not> fst (deliverWebhook (demo_platform []) demo_endpoint demo_event demo_world)
   \<and> length (sent demo_world (snd (deliverWebhook (demo_platform []) demo_endpoint demo_event demo_world))) = 3
   \<and> map entry_summary
         (appended demo_world (snd (deliverWebhook (demo_platform []) demo_endpoint demo_event demo_world)))
       = [(Failed, 3, None)]"
  using deliverWebhook_all_attempts_fail
          [where P = "demo_platform []" and w = demo_world and endpoint = demo_endpoint
             and event = demo_event
             and w' = "snd (deliverWebhook (demo_platform []) demo_endpoint demo_event demo_world)"]
  by (simp add: demo_platform_def scripted_def attempt_fails_def failure_logged_def)

text \<open>
  C1, as stated, fails: an endpoint that answers 500 three times leaves four entries in
  the log, one per response and the final one.
\<close>

theorem deliverWebhook_all_attempts_fail_counterexample:
  "attempt_fails (respond (demo_platform [Resp 500, Resp 500, Resp 500]) 0)
   \<and> attempt_fails (respond (demo_platform [Resp 500, Resp 500, Resp 500]) 1)
   \<and> attempt_fails (respond (demo_platform [Resp 500, Resp 500, Resp 500]) 2)
   \<and> map entry_summary
         (appended demo_world
            (snd (deliverWebhook (demo_platform [Resp 500, Resp 500, Resp 500])
                    demo_endpoint demo_event demo_world)))
       = [(Failed, 1, Some 500), (Failed, 2, Some 500), (Failed, 3, Some 500), (Failed, 3, None)]
   \<and> length (appended demo_world
                (snd (deliverWebhook (demo_platform [Resp 500, Resp 500, Resp 500])
                        demo_endpoint demo_event demo_world))) \<noteq> 1"
  by (simp add: deliverWebhook_def deliver_loop.simps attempt_post_def fetch_post_def
        JSON_stringify_def now_iso_def log_push_def backoff_def sleep_def MAX_RETRIES_def
        demo_platform_def demo_world_def scripted_def attempt_fails_def res_ok_def
        appended_def entry_summary_def Let_def)

text \<open>
  C2, amended. When attempt \<open>N\<close> (\<open>1 \<le> N \<le> 3\<close>) is the first to get a 2xx response,
  \<^verbatim>\<open>deliverWebhook\<close> returns \<^verbatim>\<open>true\<close> after exactly \<open>N\<close> POSTs. The log gains one \<open>failed\<close>
  entry for each earlier attempt that received a (non-2xx) response, none for an earlier
  attempt whose \<^verbatim>\<open>fetch\<close> rejected, and last exactly one \<open>success\<close> entry with attempt count
  \<open>N\<close>. The \<open>success\<close> entry is the only one exactly when every earlier attempt failed
  without a response.
\<close>

theorem deliverWebhook_success_on_attempt_N:
  assumes "1 \<le> N" and "N \<le> 3"
    and "\<forall>k<N - 1. attempt_fails (respond P (length (posts w) + k))"
    and "respond P (length (posts w) + (N - 1)) = Resp status" and "res_ok status"
    and "w' = snd (deliverWebhook P endpoint event w)"
  shows "fst (deliverWebhook P endpoint event w)
         \<and> posts w' = posts w @ sent w w' \<and> length (sent w w') = N
         \<and> deliveryLog (state w') = deliveryLog (state w) @ appended w w'
         \<and> map entry_summary (appended w w')
             = concat (map (\<lambda>k. failure_logged (respond P (length (posts w) + k)) (k + 1)) [0..<N - 1])
               @ [(Success, N, Some status)]
         \<and> (\<forall>e\<in>set (appended w w'). le_eventId e = ev_id event \<and> le_endpointId e = ep_id endpoint)
         \<and> ((\<forall>k<N - 1. respond P (length (posts w) + k) = Threw)
              \<longrightarrow> map entry_summary (appended w w') = [(Success, N, Some status)])"
proof -
  let ?payload = "json_stringify P (stringify_calls w) event"
  let ?signature = "signPayload P ?payload (ep_secret endpoint)"
  let ?w0 = "w\<lparr>stringify_calls := Suc (stringify_calls w)\<rparr>"
  let ?rq = "post_request endpoint event ?payload ?signature"
  have "\<forall>k<N - 1. attempt_fails (respond P (length (posts ?w0) + k))" using assms(3) by simp
  moreover have "1 + (N - 1) \<le> MAX_RETRIES + 1" using assms(2) by (simp add: MAX_RETRIES_def)
  ultimately obtain w1 es where
    loop: "deliver_loop P endpoint event ?payload ?signature 1 ?w0
             = deliver_loop P endpoint event ?payload ?signature (1 + (N - 1)) w1"
    and posts1: "posts w1 = posts ?w0 @ replicate (N - 1) ?rq"
    and log1: "deliveryLog (state w1) = deliveryLog (state ?w0) @ es"
    and ids1: "\<forall>e\<in>set es. le_eventId e = ev_id event \<and> le_endpointId e = ep_id endpoint"
    and sum1: "map entry_summary es
               = concat (map (\<lambda>k. failure_logged (respond P (length (posts ?w0) + k)) (1 + k)) [0..<N - 1])"
    using deliver_loop_failures [of "N - 1" P ?w0 1 endpoint event ?payload ?signature] by blast
  have N1: "1 + (N - 1) = N" using assms(1) by simp
  have len1: "length (posts w1) = length (posts w) + (N - 1)" by (simp add: posts1)
  have resp1: "respond P (length (posts w1)) = Resp status" using assms(4) len1 by simp
  then have ok: "\<not> attempt_fails (respond P (length (posts w1)))"
    using assms(5) by (simp add: attempt_fails_def)
  have NM: "N \<le> MAX_RETRIES" using assms(2) by (simp add: MAX_RETRIES_def)
  let ?entry = "\<lparr>le_eventId = ev_id event, le_endpointId = ep_id endpoint,
                  le_status = Success, le_attempts = N,
                  le_lastAttempt = to_iso P (clock P (clock_reads w1)),
                  le_statusCode = Some status\<rparr>"
  let ?w2 = "log_push ?entry
               (w1\<lparr>posts := posts w1 @ [?rq], clock_reads := Suc (clock_reads w1)\<rparr>)"
  have "attempt_post P endpoint event ?payload ?signature N w1 = (True, ?w2)"
    using attempt_post_Resp [OF resp1, of endpoint event ?payload ?signature N] assms(5) by simp
  then have "deliver_loop P endpoint event ?payload ?signature N w1 = (True, ?w2)"
    using deliver_loop_success_step [OF NM ok, of endpoint event ?payload ?signature] by simp
  then have "deliver_loop P endpoint event ?payload ?signature 1 ?w0 = (True, ?w2)"
    using loop N1 by simp
  from deliverWebhook_unfold [OF this]
  have res: "deliverWebhook P endpoint event w = (True, ?w2)" by simp
  have "replicate (N - 1) ?rq @ [?rq] = replicate N ?rq"
    using assms(1) replicate_append_same [of "N - 1" ?rq] by (cases N) simp_all
  then have posts': "posts w' = posts w @ replicate N ?rq"
    by (simp add: assms(6) res log_push_def posts1)
  have log': "deliveryLog (state w') = deliveryLog (state w) @ (es @ [?entry])"
    by (simp add: assms(6) res log_push_def log1)
  have sent': "sent w w' = replicate N ?rq"
    by (rule sent_append [OF posts'])
  have app': "appended w w' = es @ [?entry]"
    by (rule appended_append [OF log'])
  have sum': "map entry_summary (appended w w')
             = concat (map (\<lambda>k. failure_logged (respond P (length (posts w) + k)) (k + 1)) [0..<N - 1])
               @ [(Success, N, Some status)]"
    by (simp add: app' sum1 entry_summary_def)
  have thrown: "map entry_summary (appended w w') = [(Success, N, Some status)]"
    if "\<forall>k<N - 1. respond P (length (posts w) + k) = Threw"
  proof -
    from that have
      "map (\<lambda>k. failure_logged (respond P (length (posts w) + k)) (k + 1)) [0..<N - 1]
         = map (\<lambda>k. []) [0..<N - 1]"
      by (intro map_cong refl) (simp add: failure_logged_def)
    then show ?thesis by (simp add: sum')
  qed
  show ?thesis
    using res posts' sent' log' app' sum' ids1 thrown by simp
qed

theorem deliverWebhook_success_on_attempt_N_witness:
  "fst (deliverWebhook (demo_platform [Threw, Resp 204]) demo_endpoint demo_event demo_world)
   \<and> length (sent demo_world
               (snd (deliverWebhook (demo_platform [Threw, Resp 204]) demo_endpoint demo_event demo_world))) = 2
   \<and> map entry_summary
         (appended demo_world
            (snd (deliverWebhook (demo_platform [Threw, Resp 204]) demo_endpoint demo_event demo_world)))
       = [(Success, 2, Some 204)]"
  using deliverWebhook_success_on_attempt_N
          [where N = 2 and P = "demo_platform [Threw, Resp 204]" and w = demo_world
             and status = 204 and endpoint = demo_endpoint and event = demo_event
             and w' = "snd (deliverWebhook (demo_platform [Threw, Resp 204]) demo_endpoint demo_event demo_world)"]
  by (simp add: demo_platform_def scripted_def attempt_fails_def failure_logged_def res_ok_def
        demo_world_def)

text \<open>
  C2, as stated, fails: a 500 on the first attempt and a 200 on the second leave two
  entries, the first of them for attempt 1.
\<close>

theorem deliverWebhook_success_on_attempt_N_counterexample:
  "attempt_fails (respond (demo_platform [Resp 500, Resp 200]) 0)
   \<and> respond (demo_platform [Resp 500, Resp 200]) 1 = Resp 200 \<and> res_ok 200
   \<and> fst (deliverWebhook (demo_platform [Resp 500, Resp 200]) demo_endpoint demo_event demo_world)
   \<and> map entry_summary
         (appended demo_world
            (snd (deliverWebhook (demo_platform [Resp 500, Resp 200]) demo_endpoint demo_event demo_world)))
       = [(Failed, 1, Some 500), (Success, 2, Some 200)]
   \<and> length (appended demo_world
                (snd (deliverWebhook (demo_platform [Resp 500, Resp 200])
                        demo_endpoint demo_event demo_world))) \<noteq> 1"
  by (simp add: deliverWebhook_def deliver_loop.simps attempt_post_def fetch_post_def
        JSON_stringify_def now_iso_def log_push_def backoff_def sleep_def MAX_RETRIES_def
        demo_platform_def demo_world_def scripted_def attempt_fails_def res_ok_def
        appended_def entry_summary_def Let_def)

text \<open>What one delivery leaves untouched and what it sends, whatever the endpoint answers.\<close>

lemma deliverWebhook_frame:
  assumes "deliverWebhook P endpoint event w = (returned, w')"
  shows "knownBounties (state w') = knownBounties (state w)"
    and "write_calls w' = write_calls w"
    and "disk w' = disk w"
    and "stringify_calls w' = Suc (stringify_calls w)"
    and "\<exists>m. 1 \<le> m \<and> m \<le> 3
           \<and> posts w' = posts w @ replicate m
                 (post_request endpoint event (json_stringify P (stringify_calls w) event)
                    (signPayload P (json_stringify P (stringify_calls w) event) (ep_secret endpoint)))"
proof -
  let ?payload = "json_stringify P (stringify_calls w) event"
  let ?signature = "signPayload P ?payload (ep_secret endpoint)"
  let ?w0 = "w\<lparr>stringify_calls := Suc (stringify_calls w)\<rparr>"
  obtain r1 w1 where loop: "deliver_loop P endpoint event ?payload ?signature 1 ?w0 = (r1, w1)"
    by (cases "deliver_loop P endpoint event ?payload ?signature 1 ?w0")
  from deliver_loop_frame [OF loop] obtain m where
    frame: "knownBounties (state w1) = knownBounties (state w)" "stringify_calls w1 = Suc (stringify_calls w)"
      "write_calls w1 = write_calls w" "disk w1 = disk w"
    and m: "m \<le> MAX_RETRIES + 1 - 1" "1 \<le> m"
    and posts1: "posts w1 = posts w @ replicate m (post_request endpoint event ?payload ?signature)"
    by (auto simp add: MAX_RETRIES_def)
  from deliverWebhook_unfold [OF loop] assms
  have w': "w' = (if r1 then w1
                  else log_push \<lparr>le_eventId = ev_id event, le_endpointId = ep_id endpoint,
                              le_status = Failed, le_attempts = MAX_RETRIES,
                              le_lastAttempt = to_iso P (clock P (clock_reads w1)),
                              le_statusCode = None\<rparr>
                      (w1\<lparr>clock_reads := Suc (clock_reads w1)\<rparr>))"
    by (simp split: if_splits)
  show "knownBounties (state w') = knownBounties (state w)"
    and "write_calls w' = write_calls w"
    and "disk w' = disk w"
    and "stringify_calls w' = Suc (stringify_calls w)"
    by (simp_all add: w' frame log_push_def)
  have "posts w' = posts w1" by (simp add: w' log_push_def)
  with posts1 m show "\<exists>m. 1 \<le> m \<and> m \<le> 3
           \<and> posts w' = posts w @ replicate m (post_request endpoint event ?payload ?signature)"
    by (auto simp add: MAX_RETRIES_def intro!: exI [of _ m])
qed

text \<open>
  C5. One delivery calls \<^verbatim>\<open>JSON.stringify\<close> exactly once. Every POST it makes (between one
  and three) carries the result of that one call as its body, and its \<^verbatim>\<open>X-Signature\<close>
  header is \<^verbatim>\<open>sha256=\<close> followed by the hex HMAC-SHA256 of exactly that body under the
  endpoint's secret when it is present and not empty, and under \<^verbatim>\<open>HMAC_SECRET\<close> otherwise.
\<close>

theorem deliverWebhook_signs_what_it_sends:
  assumes "w' = snd (deliverWebhook P endpoint event w)"
    and "payload = json_stringify P (stringify_calls w) event"
    and "key = (case ep_secret endpoint of
                  None \<Rightarrow> HMAC_SECRET (env_HMAC_SECRET P)
                | Some secret \<Rightarrow> if secret \<noteq> [] then secret else HMAC_SECRET (env_HMAC_SECRET P))"
  shows "stringify_calls w' = stringify_calls w + 1
         \<and> posts w' = posts w @ sent w w'
         \<and> 1 \<le> length (sent w w') \<and> length (sent w w') \<le> 3
         \<and> (\<forall>rq\<in>set (sent w w').
               rq_body rq = payload
               \<and> rq_x_signature rq = ''sha256='' @ hmac_sha256_hex P key (rq_body rq))"
proof -
  obtain returned where res: "deliverWebhook P endpoint event w = (returned, w')"
    using assms(1) by (cases "deliverWebhook P endpoint event w") simp
  let ?rq = "post_request endpoint event payload (signPayload P payload (ep_secret endpoint))"
  from deliverWebhook_frame(5) [OF res] obtain m where m: "1 \<le> m" "m \<le> 3"
    and posts': "posts w' = posts w @ replicate m ?rq"
    unfolding assms(2) by blast
  have sent': "sent w w' = replicate m ?rq" by (rule sent_append [OF posts'])
  have key: "signing_key P (ep_secret endpoint) = key"
    by (simp add: signing_key_def assms(3) split: option.splits)
  have "rq_body ?rq = payload"
    and "rq_x_signature ?rq = ''sha256='' @ hmac_sha256_hex P key (rq_body ?rq)"
    by (simp_all add: post_request_def signPayload_def key)
  with m posts' sent' deliverWebhook_frame(4) [OF res] show ?thesis by simp
qed

lemma show_nat_digit: "n < 10 \<Longrightarrow> show_nat n = [''0123456789'' ! n]"
  by (subst show_nat.simps) simp

theorem deliverWebhook_signs_what_it_sends_witness:
  "sent demo_world
     (snd (deliverWebhook (demo_platform [Resp 500, Threw, Resp 200]) demo_endpoint demo_event demo_world))
   \<noteq> []
   \<and> set (map rq_body
         (sent demo_world
            (snd (deliverWebhook (demo_platform [Resp 500, Threw, Resp 200])
                    demo_endpoint demo_event demo_world))))
       = {''evt_42_bounty.created_1705312800000#0''}
   \<and> set (map rq_x_signature
         (sent demo_world
            (snd (deliverWebhook (demo_platform [Resp 500, Threw, Resp 200])
                    demo_endpoint demo_event demo_world))))
       = {''sha256=s3cret/evt_42_bounty.created_1705312800000#0''}"
proof -
  let ?P = "demo_platform [Resp 500, Threw, Resp 200]"
  let ?payload = "''evt_42_bounty.created_1705312800000#0''"
  have p: "?payload = json_stringify ?P (stringify_calls demo_world) demo_event"
    by (simp add: demo_platform_def demo_world_def demo_event_def demo_stringify_def show_nat_digit)
  have k: "''s3cret'' = (case ep_secret demo_endpoint of
                  None \<Rightarrow> HMAC_SECRET (env_HMAC_SECRET ?P)
                | Some secret \<Rightarrow> if secret \<noteq> [] then secret else HMAC_SECRET (env_HMAC_SECRET ?P))"
    by (simp add: demo_endpoint_def)
  have h: "hmac_sha256_hex ?P ''s3cret'' ?payload = ''s3cret/evt_42_bounty.created_1705312800000#0''"
    by (simp add: demo_platform_def demo_hmac_def)
  let ?sent = "sent demo_world (snd (deliverWebhook ?P demo_endpoint demo_event demo_world))"
  from deliverWebhook_signs_what_it_sends [OF refl p k] h
  have nonempty: "?sent \<noteq> []"
    and each: "\<And>rq. rq \<in> set ?sent \<Longrightarrow>
                 rq_body rq = ?payload
                 \<and> rq_x_signature rq = ''sha256=s3cret/evt_42_bounty.created_1705312800000#0''"
    by auto
  from nonempty obtain rq where "rq \<in> set ?sent" by (cases ?sent) auto
  with each have "rq_body ` set ?sent = {?payload}"
    and "rq_x_signature ` set ?sent = {''sha256=s3cret/evt_42_bounty.created_1705312800000#0''}"
    by (auto simp add: image_iff)
  with nonempty show ?thesis by simp
qed

section \<open>Lemmas about a poll cycle\<close>

lemma find_append_case:
  "find p (xs @ ys) = (case find p xs of None \<Rightarrow> find p ys | Some x \<Rightarrow> Some x)"
  by (induction xs) simp_all

lemma find_Some_member: "find p xs = Some x \<Longrightarrow> x \<in> set xs \<and> p x"
  by (induction xs) (auto split: if_splits)

lemma find_last_distinct:
  "distinct (map f xs) \<Longrightarrow> x \<in> set xs \<Longrightarrow> find (\<lambda>y. f y = f x) (rev xs) = Some x"
proof (induction xs)
  case Nil
  then show ?case by simp
next
  case (Cons a xs)
  show ?case
  proof (cases "x \<in> set xs")
    case True
    with Cons show ?thesis by (simp add: find_append_case)
  next
    case False
    with Cons.prems have "x = a" by simp
    moreover have "f y \<noteq> f a" if "y \<in> set xs" for y
    proof
      assume "f y = f a"
      with that have "f a \<in> f ` set xs" by (metis imageI)
      with Cons.prems show False by simp
    qed
    then have "find (\<lambda>y. f y = f a) (rev xs) = None"
      by (simp add: find_None_iff)
    ultimately show ?thesis by (simp add: find_append_case)
  qed
qed

text \<open>An assignment never removes a property, and touches no key but its own.\<close>

lemma own_object_set_other: "k \<noteq> key \<Longrightarrow> own (object_set obj key v) k = own obj k"
  by (simp add: object_set_def)

lemma own_object_set:
  "k \<noteq> ''__proto__'' \<Longrightarrow> own (object_set obj key v) k = (if key = k then Some v else own obj k)"
  by (simp add: object_set_def)

lemma own_object_set_keeps: "own obj k \<noteq> None \<Longrightarrow> own (object_set obj key v) k \<noteq> None"
  by (auto simp add: object_set_def)

lemma snapshot_of_holds_polled_state: "holds_polled_state (snapshot_of bounty) bounty"
  by (simp add: holds_polled_state_def snapshot_of_def or_null_def
        property_def [of "Obj ps" for ps] get_def [of "Obj ps" for ps] own_property_def nullish_def)

lemma deliver_targets_frame:
  "knownBounties (state (deliver_targets P event targets w)) = knownBounties (state w)
   \<and> disk (deliver_targets P event targets w) = disk w
   \<and> write_calls (deliver_targets P event targets w) = write_calls w"
proof (induction targets arbitrary: w)
  case Nil
  show ?case by simp
next
  case (Cons target targets)
  have r: "deliverWebhook P target event w
             = (fst (deliverWebhook P target event w), snd (deliverWebhook P target event w))"
    by simp
  from deliverWebhook_frame(1-3) [OF r] Cons.IH show ?case by simp
qed

lemma dispatch_events_frame:
  "knownBounties (state (dispatch_events P webhookEndpoints key bounty_id bounty events w))
     = knownBounties (state w)
   \<and> disk (dispatch_events P webhookEndpoints key bounty_id bounty events w) = disk w
   \<and> write_calls (dispatch_events P webhookEndpoints key bounty_id bounty events w) = write_calls w"
  by (induction events arbitrary: w)
     (simp_all add: dispatch_events.simps deliver_targets_frame date_now_def now_iso_def Let_def)

lemma process_bounty_throws:
  "key_of P bounty = None \<Longrightarrow> process_bounty P webhookEndpoints bounty w = (False, w)"
  by (simp add: key_of_def process_bounty_def split: option.splits)

lemma process_bounty_returns:
  assumes "key_of P bounty = Some key"
  obtains w1 where "process_bounty P webhookEndpoints bounty w = (True, w1)"
    and "knownBounties (state w1) = object_set (knownBounties (state w)) key (snapshot_of bounty)"
    and "disk w1 = disk w" and "write_calls w1 = write_calls w"
proof -
  from assms obtain bounty_id where id: "get bounty ''id'' = Some bounty_id"
    and key: "to_string P bounty_id = Some key"
    by (auto simp add: key_of_def split: option.splits)
  from id have "\<not> nullish bounty" by (auto simp add: get_def split: if_splits)
  then obtain events where
    d: "detectEvents (object_get (knownBounties (state w)) key) bounty w = (Some events, w)"
    using detectEvents_returns by blast
  let ?w1 = "dispatch_events P webhookEndpoints key bounty_id bounty events
               (w\<lparr>state := (state w)\<lparr>knownBounties :=
                     object_set (knownBounties (state w)) key (snapshot_of bounty)\<rparr>\<rparr>)"
  have "process_bounty P webhookEndpoints bounty w = (True, ?w1)"
    by (simp add: process_bounty_def id key d Let_def)
  moreover have "knownBounties (state ?w1)
                   = object_set (knownBounties (state w)) key (snapshot_of bounty)"
    and "disk ?w1 = disk w" and "write_calls ?w1 = write_calls w"
    by (simp_all add: dispatch_events_frame)
  ultimately show ?thesis by (rule that)
qed

text \<open>The loop runs to its end exactly when no element throws.\<close>

lemma process_bounties_returns_iff:
  "fst (process_bounties P webhookEndpoints bounties w) \<longleftrightarrow> (\<forall>b\<in>set bounties. key_of P b \<noteq> None)"
proof (induction bounties arbitrary: w)
  case Nil
  show ?case by simp
next
  case (Cons bounty bounties)
  show ?case
  proof (cases "key_of P bounty")
    case None
    then show ?thesis by (simp add: process_bounty_throws)
  next
    case (Some key)
    from process_bounty_returns [OF Some, of webhookEndpoints w]
    obtain w1 where "process_bounty P webhookEndpoints bounty w = (True, w1)" by blast
    with Some Cons.IH [of w1] show ?thesis by simp
  qed
qed

text \<open>Whether or not the loop throws, it writes no file and removes no snapshot.\<close>

lemma process_bounties_frame:
  "disk (snd (process_bounties P webhookEndpoints bounties w)) = disk w
   \<and> write_calls (snd (process_bounties P webhookEndpoints bounties w)) = write_calls w
   \<and> (own (knownBounties (state w)) k \<noteq> None \<longrightarrow>
        own (knownBounties (state (snd (process_bounties P webhookEndpoints bounties w)))) k \<noteq> None)"
proof (induction bounties arbitrary: w)
  case Nil
  show ?case by simp
next
  case (Cons bounty bounties)
  show ?case
  proof (cases "key_of P bounty")
    case None
    then show ?thesis by (simp add: process_bounty_throws)
  next
    case (Some key)
    from process_bounty_returns [OF Some, of webhookEndpoints w]
    obtain w1 where p: "process_bounty P webhookEndpoints bounty w = (True, w1)"
      and k: "knownBounties (state w1) = object_set (knownBounties (state w)) key (snapshot_of bounty)"
      and f: "disk w1 = disk w" "write_calls w1 = write_calls w"
      by blast
    have "own (knownBounties (state w)) k \<noteq> None \<longrightarrow> own (knownBounties (state w1)) k \<noteq> None"
      using own_object_set_keeps [of "knownBounties (state w)" k key "snapshot_of bounty"]
      by (simp add: k)
    with Cons.IH [of w1] f show ?thesis by (simp add: p)
  qed
qed

text \<open>The store after a loop that did not throw: for each key the last element with that key wins.\<close>

lemma process_bounties_own:
  assumes "\<forall>b\<in>set bounties. key_of P b \<noteq> None" and "k \<noteq> ''__proto__''"
  shows "own (knownBounties (state (snd (process_bounties P webhookEndpoints bounties w)))) k
           = (case find (\<lambda>b. key_of P b = Some k) (rev bounties) of
                None \<Rightarrow> own (knownBounties (state w)) k
              | Some b \<Rightarrow> Some (snapshot_of b))"
  using assms(1)
proof (induction bounties arbitrary: w)
  case Nil
  show ?case by simp
next
  case (Cons bounty bounties)
  from Cons.prems obtain key where key: "key_of P bounty = Some key" by auto
  from process_bounty_returns [OF key, of webhookEndpoints w]
  obtain w1 where p: "process_bounty P webhookEndpoints bounty w = (True, w1)"
    and k: "knownBounties (state w1) = object_set (knownBounties (state w)) key (snapshot_of bounty)"
    by blast
  from Cons.prems have "\<forall>b\<in>set bounties. key_of P b \<noteq> None" by simp
  from Cons.IH [OF this, of w1] show ?case
    by (auto simp add: p k own_object_set [OF assms(2)] key find_append_case
             split: option.splits)
qed

lemma process_bounties_own_other:
  assumes "Some k \<notin> key_of P ` set bounties"
  shows "own (knownBounties (state (snd (process_bounties P webhookEndpoints bounties w)))) k
           = own (knownBounties (state w)) k"
  using assms
proof (induction bounties arbitrary: w)
  case Nil
  show ?case by simp
next
  case (Cons bounty bounties)
  show ?case
  proof (cases "key_of P bounty")
    case None
    then show ?thesis by (simp add: process_bounty_throws)
  next
    case (Some key)
    from process_bounty_returns [OF Some, of webhookEndpoints w]
    obtain w1 where p: "process_bounty P webhookEndpoints bounty w = (True, w1)"
      and k: "knownBounties (state w1) = object_set (knownBounties (state w)) key (snapshot_of bounty)"
      by blast
    from Cons.prems Some have "k \<noteq> key" and rest: "Some k \<notin> key_of P ` set bounties" by auto
    then have "own (knownBounties (state w1)) k = own (knownBounties (state w)) k"
      by (simp add: k own_object_set_other)
    with Cons.IH [OF rest, of w1] show ?thesis by (simp add: p)
  qed
qed

lemma saveState_frame:
  "knownBounties (state (snd (saveState P w))) = knownBounties (state w)"
  by (simp add: saveState_def writeFileSync_def Let_def)

section \<open>Properties of a poll cycle\<close>

lemma show_nat_last_digit:
  "show_nat n \<noteq> [] \<and> last (show_nat n) \<in> set ''0123456789''"
proof -
  have d: "''0123456789'' ! k \<in> set ''0123456789''" if "k < 10" for k
    using that nth_mem [of k "''0123456789''"] by simp
  show ?thesis
  proof (cases "n < 10")
    case True
    with d [of n] show ?thesis by (subst (1 2) show_nat.simps) simp
  next
    case False
    with d [of "n mod 10"] show ?thesis by (subst (1 2) show_nat.simps) simp
  qed
qed

lemma show_int_not_proto: "show_int i \<noteq> ''__proto__''"
proof
  assume a: "show_int i = ''__proto__''"
  have "last (show_int i) \<in> set ''0123456789''"
    using show_nat_last_digit by (simp add: show_int_def)
  with a show False by simp
qed

text \<open>A record whose id is a safe integer is stored under the decimal digits of the id.\<close>

lemma key_of_safe_integer:
  assumes "get bounty ''id'' = Some (Num (of_int i))" and "\<bar>i\<bar> \<le> 9007199254740991"
  shows "key_of P bounty = Some (show_int i)"
proof -
  have "\<bar>real_of_int i\<bar> \<le> 9007199254740991"
    using assms(2) by (metis of_int_abs of_int_le_iff of_int_numeral)
  then show ?thesis
    by (simp add: key_of_def assms(1) Number_toString_def)
qed

lemma show_nat_42: "show_nat 42 = ''42''"
  by (simp add: show_nat.simps [of 42] show_nat.simps [of 4])

lemma key_of_demo_bounty: "key_of P (demo_bounty s) = Some ''42''"
proof -
  have "get (demo_bounty s) ''id'' = Some (Num (of_int 42))"
    by (simp add: demo_bounty_def get_def own_property_def nullish_def)
  from key_of_safe_integer [OF this, of P] show ?thesis
    by (simp add: show_int_def show_nat_42)
qed




text \<open>
  C8. After a poll cycle that fetched an iterable body and read every element without an
  exception, each property key under which an element was stored holds the snapshot built
  from the polled fields of the last element with that key (of the element itself when
  the keys are distinct): its id and status as polled, and each of \<^verbatim>\<open>claimedBy\<close>,
  \<^verbatim>\<open>submittedAt\<close>, \<^verbatim>\<open>completedAt\<close> as polled or \<^verbatim>\<open>null\<close> when falsy. This holds whether or
  not any event fired. The snapshot of every other key is as before, and no key leaves the
  store. A record whose id is a safe integer has the decimal digits of the id as its key;
  the one key that is not stored as a property is \<^verbatim>\<open>__proto__\<close>, which no number gives.
\<close>

theorem pollAndDispatch_snapshots:
  assumes "res_ok status" and "iterate body = Some bounties"
    and "\<forall>b\<in>set bounties. key_of P b \<noteq> None"
    and "w' = pollAndDispatch P webhookEndpoints (FetchResp status (Json body)) w"
  shows "(\<forall>k. k \<noteq> ''__proto__'' \<longrightarrow>
            (case find (\<lambda>b. key_of P b = Some k) (rev bounties) of
               None \<Rightarrow> own (knownBounties (state w')) k = own (knownBounties (state w)) k
             | Some b \<Rightarrow> \<exists>s. own (knownBounties (state w')) k = Some s \<and> holds_polled_state s b))
         \<and> (distinct (map (key_of P) bounties) \<longrightarrow>
              (\<forall>b\<in>set bounties. \<forall>k. key_of P b = Some k \<and> k \<noteq> ''__proto__'' \<longrightarrow>
                 (\<exists>s. own (knownBounties (state w')) k = Some s \<and> holds_polled_state s b)))
         \<and> (\<forall>b\<in>set bounties. \<forall>i. get b ''id'' = Some (Num (of_int i)) \<and> \<bar>i\<bar> \<le> 9007199254740991 \<longrightarrow>
              key_of P b = Some (show_int i) \<and> show_int i \<noteq> ''__proto__'')
         \<and> (\<forall>k. Some k \<notin> key_of P ` set bounties \<longrightarrow>
              own (knownBounties (state w')) k = own (knownBounties (state w)) k)
         \<and> dom (own (knownBounties (state w))) \<subseteq> dom (own (knownBounties (state w')))"
    (is "?last_wins \<and> ?exact \<and> ?keys \<and> ?absent \<and> ?grows")
proof -
  let ?w1 = "snd (process_bounties P webhookEndpoints bounties w)"
  from assms(3) have "fst (process_bounties P webhookEndpoints bounties w)"
    by (simp add: process_bounties_returns_iff)
  then obtain w1 where p: "process_bounties P webhookEndpoints bounties w = (True, w1)"
    by (cases "process_bounties P webhookEndpoints bounties w") simp
  have "knownBounties (state w') = knownBounties (state w1)"
    unfolding assms(4) using assms(1,2)
    by (simp add: pollAndDispatch_def p saveState_frame)
  moreover have "?w1 = w1" by (simp add: p)
  ultimately have store: "knownBounties (state w') = knownBounties (state ?w1)" by simp
  have known: "own (knownBounties (state w')) k
              = (case find (\<lambda>b. key_of P b = Some k) (rev bounties) of
                   None \<Rightarrow> own (knownBounties (state w)) k
                 | Some b \<Rightarrow> Some (snapshot_of b))" if "k \<noteq> ''__proto__''" for k
    by (simp add: store process_bounties_own [OF assms(3) that])
  have c1: ?last_wins
  proof (intro allI impI)
    fix k :: string assume k: "k \<noteq> ''__proto__''"
    show "case find (\<lambda>b. key_of P b = Some k) (rev bounties) of
            None \<Rightarrow> own (knownBounties (state w')) k = own (knownBounties (state w)) k
          | Some b \<Rightarrow> \<exists>s. own (knownBounties (state w')) k = Some s \<and> holds_polled_state s b"
      by (simp add: known [OF k] snapshot_of_holds_polled_state split: option.splits)
  qed
  have c2: ?exact
  proof (intro impI ballI allI)
    fix b k assume d: "distinct (map (key_of P) bounties)" and b: "b \<in> set bounties"
      and k: "key_of P b = Some k \<and> k \<noteq> ''__proto__''"
    from find_last_distinct [OF d b] k
    have "find (\<lambda>y. key_of P y = Some k) (rev bounties) = Some b" by simp
    with k show "\<exists>s. own (knownBounties (state w')) k = Some s \<and> holds_polled_state s b"
      by (simp add: known snapshot_of_holds_polled_state)
  qed
  have c3: ?keys
  proof (intro ballI allI impI)
    fix b i assume "get b ''id'' = Some (Num (of_int i)) \<and> \<bar>i\<bar> \<le> 9007199254740991"
    then show "key_of P b = Some (show_int i) \<and> show_int i \<noteq> ''__proto__''"
      by (simp add: key_of_safe_integer show_int_not_proto)
  qed
  have c4: ?absent
  proof (intro allI impI)
    fix k assume "Some k \<notin> key_of P ` set bounties"
    then show "own (knownBounties (state w')) k = own (knownBounties (state w)) k"
      by (simp add: store process_bounties_own_other)
  qed
  have c5: ?grows
  proof
    fix k assume "k \<in> dom (own (knownBounties (state w)))"
    then have "own (knownBounties (state w)) k \<noteq> None" by (simp add: dom_def)
    with process_bounties_frame [of P webhookEndpoints bounties w k]
    have "own (knownBounties (state w')) k \<noteq> None" by (simp add: store)
    then show "k \<in> dom (own (knownBounties (state w')))" by (simp add: dom_def)
  qed
  show ?thesis by (rule conjI [OF c1 conjI [OF c2 conjI [OF c3 conjI [OF c4 c5]]]])
qed

theorem pollAndDispatch_snapshots_witness:
  "fst (detectEvents (object_get (knownBounties (state demo_world_known)) ''42'')
          (demo_bounty ''open'') demo_world_known) = Some []
   \<and> property (object_get (knownBounties (state demo_world_known)) ''42'') ''claimedBy''
       = Str ''alice''
   \<and> (\<exists>s. own (knownBounties (state
              (pollAndDispatch (demo_platform []) [demo_endpoint]
                 (FetchResp 200 (Json (Arr [demo_bounty ''open'']))) demo_world_known))) ''42''
            = Some s
          \<and> property s ''id'' = Num 42 \<and> property s ''status'' = Str ''open''
          \<and> property s ''claimedBy'' = Null)
   \<and> own (knownBounties (state
         (pollAndDispatch (demo_platform []) [demo_endpoint]
            (FetchResp 200 (Json (Arr [demo_bounty ''open'']))) demo_world_known))) ''7''
       = own (knownBounties (state demo_world_known)) ''7''
   \<and> own (knownBounties (state demo_world_known)) ''7'' \<noteq> None"
proof -
  let ?P = "demo_platform []"
  let ?b = "demo_bounty ''open''"
  let ?w' = "pollAndDispatch ?P [demo_endpoint] (FetchResp 200 (Json (Arr [?b]))) demo_world_known"
  have ok: "res_ok 200" by (simp add: res_ok_def)
  have it: "iterate (Arr [?b]) = Some [?b]" by (simp add: iterate_def)
  have keys: "\<forall>b\<in>set [?b]. key_of ?P b \<noteq> None" by (simp add: key_of_demo_bounty)
  note t = pollAndDispatch_snapshots [OF ok it keys refl, of "[demo_endpoint]" demo_world_known]
  have old: "object_get (knownBounties (state demo_world_known)) ''42''
               = Obj [(''id'', Num 42), (''status'', Str ''open''), (''claimedBy'', Str ''alice''),
                      (''submittedAt'', Null), (''completedAt'', Null)]"
    by (simp add: demo_world_known_def demo_world_def object_get_def)
  have ev: "fst (detectEvents (object_get (knownBounties (state demo_world_known)) ''42'')
          ?b demo_world_known) = Some []"
    by (simp add: old detectEvents_def push_if_def demo_bounty_def get_def own_property_def
          nullish_def)
  have alice: "property (object_get (knownBounties (state demo_world_known)) ''42'') ''claimedBy''
                 = Str ''alice''"
    by (simp add: old property_def get_def own_property_def nullish_def)
  have polled: "property ?b ''id'' = Num 42" "property ?b ''status'' = Str ''open''"
    "property ?b ''claimedBy'' = Undefined"
    by (simp_all add: demo_bounty_def property_def get_def own_property_def nullish_def)
  from t have "case find (\<lambda>b. key_of ?P b = Some ''42'') (rev [?b]) of
                 None \<Rightarrow> own (knownBounties (state ?w')) ''42''
                           = own (knownBounties (state demo_world_known)) ''42''
               | Some b \<Rightarrow> \<exists>s. own (knownBounties (state ?w')) ''42'' = Some s
                                \<and> holds_polled_state s b"
    by simp
  then obtain s where s: "own (knownBounties (state ?w')) ''42'' = Some s"
    and h: "holds_polled_state s ?b"
    by (auto simp add: key_of_demo_bounty)
  from h polled have "property s ''id'' = Num 42" "property s ''status'' = Str ''open''"
    "property s ''claimedBy'' = Null"
    by (simp_all add: holds_polled_state_def)
  with s have new: "\<exists>s. own (knownBounties (state ?w')) ''42'' = Some s
          \<and> property s ''id'' = Num 42 \<and> property s ''status'' = Str ''open''
          \<and> property s ''claimedBy'' = Null"
    by blast
  have "Some ''7'' \<notin> key_of ?P ` set [?b]" by (simp add: key_of_demo_bounty)
  with t have seven: "own (knownBounties (state ?w')) ''7''
                        = own (knownBounties (state demo_world_known)) ''7''"
    by blast
  have "own (knownBounties (state demo_world_known)) ''7'' \<noteq> None"
    by (simp add: demo_world_known_def demo_world_def)
  with ev alice new seven show ?thesis by blast
qed

text \<open>
  A body that is a JSON string is iterated character by character. On \<^verbatim>\<open>"ab"\<close> both
  elements have no id: the first is stored under the key \<^verbatim>\<open>undefined\<close> and announced as
  created, the second overwrites it without an event, and the state is written to the
  file.
\<close>

lemma pollAndDispatch_string_body:
  "own (knownBounties (state
     (pollAndDispatch (demo_platform [Resp 200]) [demo_endpoint]
        (FetchResp 200 (Json (Str ''ab''))) demo_world))) ''undefined''
     = Some (Obj [(''id'', Undefined), (''status'', Undefined), (''claimedBy'', Null),
                  (''submittedAt'', Null), (''completedAt'', Null)])
   \<and> map rq_x_event_id (posts
        (pollAndDispatch (demo_platform [Resp 200]) [demo_endpoint]
           (FetchResp 200 (Json (Str ''ab''))) demo_world))
       = [''evt_undefined_bounty.created_'' @ show_nat 1705312800000]
   \<and> disk
        (pollAndDispatch (demo_platform [Resp 200]) [demo_endpoint]
           (FetchResp 200 (Json (Str ''ab''))) demo_world)
       = Some (state
           (pollAndDispatch (demo_platform [Resp 200]) [demo_endpoint]
              (FetchResp 200 (Json (Str ''ab''))) demo_world))"
proof -
  let ?P = "demo_platform [Resp 200]"
  let ?snapshot = "Obj [(''id'', Undefined), (''status'', Undefined), (''claimedBy'', Null),
                        (''submittedAt'', Null), (''completedAt'', Null)]"
  let ?w0 = "demo_world\<lparr>state := (state demo_world)
               \<lparr>knownBounties := object_set (knownBounties (state demo_world)) ''undefined'' ?snapshot\<rparr>\<rparr>"
  let ?w1 = "dispatch_events ?P [demo_endpoint] ''undefined'' Undefined (Str ''a'')
               [BountyCreated] ?w0"
  let ?w2 = "?w1\<lparr>state := (state ?w1)
               \<lparr>knownBounties := object_set (knownBounties (state ?w1)) ''undefined'' ?snapshot\<rparr>\<rparr>"
  have id: "get (Str c) ''id'' = Some Undefined" for c
    by (simp add: get_def own_property_def nullish_def)
  have snap: "snapshot_of (Str c) = ?snapshot" for c
    by (simp add: snapshot_of_def or_null_def property_def get_def own_property_def nullish_def)
  have old: "object_get (knownBounties (state demo_world)) ''undefined'' = Undefined"
    by (simp add: object_get_def demo_world_def inherited_def Object_prototype_members_def)
  have d1: "detectEvents Undefined (Str ''a'') demo_world = (Some [BountyCreated], demo_world)"
    by (simp add: detectEvents_def push_if_def get_def own_property_def nullish_def)
  have p1: "process_bounty ?P [demo_endpoint] (Str ''a'') demo_world = (True, ?w1)"
    by (simp add: process_bounty_def id old d1 snap Let_def)
  have k1: "knownBounties (state ?w1) = object_set (knownBounties (state demo_world)) ''undefined'' ?snapshot"
    by (simp add: dispatch_events_frame)
  have old2: "object_get (knownBounties (state ?w1)) ''undefined'' = ?snapshot"
    unfolding object_get_def k1 by (simp add: object_set_def)
  have d2: "detectEvents ?snapshot (Str ''b'') ?w1 = (Some [], ?w1)"
    by (simp add: detectEvents_def push_if_def get_def own_property_def nullish_def)
  have p2: "process_bounty ?P [demo_endpoint] (Str ''b'') ?w1 = (True, ?w2)"
    by (simp add: process_bounty_def id old2 d2 snap dispatch_events.simps(1) Let_def)
  have r: "pollAndDispatch ?P [demo_endpoint] (FetchResp 200 (Json (Str ''ab''))) demo_world
             = snd (saveState ?P ?w2)"
    by (simp add: pollAndDispatch_def res_ok_def iterate_def p1 p2)
  have own2: "own (knownBounties (state (snd (saveState ?P ?w2)))) ''undefined'' = Some ?snapshot"
    by (simp add: saveState_frame object_set_def)
  have disk2: "disk (snd (saveState ?P ?w2)) = Some (state (snd (saveState ?P ?w2)))"
    by (simp add: saveState_def writeFileSync_def demo_platform_def demo_write_ok_def Let_def)
  have "posts (snd (saveState ?P ?w2)) = posts ?w1"
    by (simp add: saveState_def writeFileSync_def Let_def)
  moreover have "map rq_x_event_id (posts ?w1)
                   = [''evt_undefined_bounty.created_'' @ show_nat 1705312800000]"
    by (simp add: demo_world_def demo_endpoint_def demo_platform_def scripted_def demo_clock_def
          dispatch_events.simps date_now_def now_iso_def deliverWebhook_def deliver_loop.simps
          attempt_post_def
          post_request_def fetch_post_def JSON_stringify_def log_push_def res_ok_def
          MAX_RETRIES_def Number_toString_def show_int_def Let_def)
  ultimately show ?thesis using own2 disk2 by (simp add: r)
qed

end
